theory Spec2Isabelle
  imports Main "HOL-Library.DAList"
begin

section \<open>Data model (types.ts)\<close>

text \<open>
  A \<^verbatim>\<open>BreakpointGroup\<close> and a \<^verbatim>\<open>BreakpointInfo\<close> each carry their own \<^verbatim>\<open>id\<close>, and
  the two \<^verbatim>\<open>Map<string, ...>\<close> fields of \<^verbatim>\<open>BreakpointManager\<close> are only ever filled under
  that id (\<^verbatim>\<open>this.groups.set(group.id, group)\<close>,
  \<^verbatim>\<open>this.breakpoints.set(breakpointInfo.id, breakpointInfo)\<close>) and no code assigns to an id.
  An object is therefore the pair of its id and a record of its remaining fields, and a
  JavaScript \<^verbatim>\<open>Map\<close> is an association list with distinct keys in insertion order: setting an
  existing key replaces the value in place, a new key goes to the end.
\<close>

record BreakpointGroup =
  g_name :: string
  g_breakpoints :: "string list"
  g_enabled :: bool
  g_color :: "string option"
  g_description :: "string option"

text \<open>
  \<^verbatim>\<open>hitCount\<close> is the number \<^verbatim>\<open>parseInt(bp.hitCondition)\<close>. The number is kept symbolic, as
  the text it is parsed from: nothing below computes with it.
\<close>

datatype js_number = parseInt string

record BreakpointInfo =
  bi_file :: string
  bi_line :: nat
  bi_column :: nat
  bi_condition :: "string option"
  bi_hitCount :: "js_number option"
  bi_logMessage :: "string option"
  bi_enabled :: bool

section \<open>The host's breakpoints (vscode.debug)\<close>

text \<open>
  Of a \<^verbatim>\<open>vscode.Location\<close> the code reads \<^verbatim>\<open>uri.fsPath\<close>, \<^verbatim>\<open>range.start.line\<close> (0-based) and
  \<^verbatim>\<open>range.start.character\<close>. A breakpoint that is not a \<^verbatim>\<open>SourceBreakpoint\<close> (a function
  breakpoint, say) is \<open>OtherBreakpoint\<close>; of it only the enabled flag is kept.
\<close>

record Location =
  fsPath :: string
  start_line :: nat
  start_character :: nat

record SourceBreakpoint =
  sb_location :: Location
  sb_enabled :: bool
  sb_condition :: "string option"
  sb_hitCondition :: "string option"
  sb_logMessage :: "string option"

datatype Breakpoint = Source SourceBreakpoint | OtherBreakpoint bool

section \<open>BreakpointManager (breakpointManager.ts)\<close>

text \<open>
  The state of a \<^verbatim>\<open>BreakpointManager\<close> together with what it acts on:
  \<^item> \<open>groups\<close>, \<open>breakpoints\<close>: the two private maps;
  \<^item> \<open>host\<close>: the host's breakpoint objects in creation order, each addressed by its
    position; \<open>None\<close> marks an object that was removed. \<^verbatim>\<open>vscode.debug.breakpoints\<close> is the list
    of the objects still there;
  \<^item> \<open>persisted\<close>: every value written with
    \<^verbatim>\<open>workspaceState.update('breakpointGroups', ...)\<close>, latest first;
  \<^item> \<open>fired\<close>: how often \<^verbatim>\<open>_onDidChangeGroups.fire()\<close> ran.
\<close>

record manager =
  groups :: "(string, BreakpointGroup) alist"
  breakpoints :: "(string, BreakpointInfo) alist"
  host :: "Breakpoint option list"
  persisted :: "(string \<times> BreakpointGroup) list list"
  fired :: nat

definition saveGroups :: "manager \<Rightarrow> manager" where
  "saveGroups s = s\<lparr>persisted := DAList.impl_of (groups s) # persisted s\<rparr>"

definition fireGroupsChanged :: "manager \<Rightarrow> manager" where
  "fireGroupsChanged s = s\<lparr>fired := Suc (fired s)\<rparr>"

text \<open>\<^verbatim>\<open>createGroup\<close>; the generated id (time stamp and random suffix) is the argument \<open>gid\<close>.\<close>

definition createGroup :: "string \<Rightarrow> string \<Rightarrow> string option \<Rightarrow> manager \<Rightarrow> manager" where
  "createGroup gid nm descr s =
     fireGroupsChanged (saveGroups (s\<lparr>groups :=
       DAList.update gid \<lparr>g_name = nm, g_breakpoints = [], g_enabled = True,
                          g_color = None, g_description = descr\<rparr> (groups s)\<rparr>))"

definition deleteGroup :: "string \<Rightarrow> manager \<Rightarrow> manager" where
  "deleteGroup groupId s =
     fireGroupsChanged (saveGroups (s\<lparr>groups := DAList.delete groupId (groups s)\<rparr>))"

definition renameGroup :: "string \<Rightarrow> string \<Rightarrow> manager \<Rightarrow> manager" where
  "renameGroup groupId newName s =
     (case DAList.lookup (groups s) groupId of
        None \<Rightarrow> s
      | Some g \<Rightarrow> fireGroupsChanged (saveGroups (s\<lparr>groups :=
          DAList.map_entry groupId (\<lambda>g. g\<lparr>g_name := newName\<rparr>) (groups s)\<rparr>)))"

definition addBreakpointToGroup :: "string \<Rightarrow> string \<Rightarrow> manager \<Rightarrow> manager" where
  "addBreakpointToGroup breakpointId groupId s =
     (case DAList.lookup (groups s) groupId of
        None \<Rightarrow> s
      | Some g \<Rightarrow>
          if DAList.lookup (breakpoints s) breakpointId \<noteq> None
             \<and> breakpointId \<notin> set (g_breakpoints g)
          then fireGroupsChanged (saveGroups (s\<lparr>groups :=
                 DAList.map_entry groupId
                   (\<lambda>g. g\<lparr>g_breakpoints := g_breakpoints g @ [breakpointId]\<rparr>) (groups s)\<rparr>))
          else s)"

definition removeBreakpointFromGroup :: "string \<Rightarrow> string \<Rightarrow> manager \<Rightarrow> manager" where
  "removeBreakpointFromGroup breakpointId groupId s =
     (case DAList.lookup (groups s) groupId of
        None \<Rightarrow> s
      | Some g \<Rightarrow> fireGroupsChanged (saveGroups (s\<lparr>groups :=
          DAList.map_entry groupId
            (\<lambda>g. g\<lparr>g_breakpoints := filter (\<lambda>i. i \<noteq> breakpointId) (g_breakpoints g)\<rparr>)
            (groups s)\<rparr>)))"

definition getGroups :: "manager \<Rightarrow> (string \<times> BreakpointGroup) list" where
  "getGroups s = DAList.impl_of (groups s)"

definition getBreakpoints :: "manager \<Rightarrow> (string \<times> BreakpointInfo) list" where
  "getBreakpoints s = DAList.impl_of (breakpoints s)"

text \<open>\<^verbatim>\<open>group.breakpoints.map(id => this.breakpoints.get(id)).filter(bp => bp !== undefined)\<close>\<close>

definition getBreakpointsInGroup :: "string \<Rightarrow> manager \<Rightarrow> (string \<times> BreakpointInfo) list" where
  "getBreakpointsInGroup groupId s =
     (case DAList.lookup (groups s) groupId of
        None \<Rightarrow> []
      | Some g \<Rightarrow>
          List.map_filter (\<lambda>i. map_option (Pair i) (DAList.lookup (breakpoints s) i))
            (g_breakpoints g))"

definition groupedBreakpointIds :: "manager \<Rightarrow> string set" where
  "groupedBreakpointIds s = (\<Union>(k, g) \<in> set (getGroups s). set (g_breakpoints g))"

definition getUngroupedBreakpoints :: "manager \<Rightarrow> (string \<times> BreakpointInfo) list" where
  "getUngroupedBreakpoints s =
     filter (\<lambda>(i, bp). i \<notin> groupedBreakpointIds s) (getBreakpoints s)"

definition getGroupForBreakpoint :: "string \<Rightarrow> manager \<Rightarrow> (string \<times> BreakpointGroup) option" where
  "getGroupForBreakpoint breakpointId s =
     List.find (\<lambda>(k, g). breakpointId \<in> set (g_breakpoints g)) (getGroups s)"

definition isBreakpointGrouped :: "string \<Rightarrow> manager \<Rightarrow> bool" where
  "isBreakpointGrouped breakpointId s = (getGroupForBreakpoint breakpointId s \<noteq> None)"

section \<open>Mirroring the host (breakpointManager.ts)\<close>

text \<open>A template literal renders a non-negative integer in decimal.\<close>

function dec :: "nat \<Rightarrow> string" where
  "dec n = (if n < 10 then [''0123456789'' ! n] else dec (n div 10) @ [''0123456789'' ! (n mod 10)])"
  by pat_completeness auto
termination
  by (relation "measure id") auto

declare dec.simps [simp del]

definition generateBreakpointId :: "SourceBreakpoint \<Rightarrow> string" where
  "generateBreakpointId breakpoint =
     fsPath (sb_location breakpoint) @ '':'' @ dec (start_line (sb_location breakpoint) + 1)"

text \<open>\<^verbatim>\<open>vscode.debug.breakpoints\<close>: the objects still there, each with its address.\<close>

definition debug_breakpoints :: "manager \<Rightarrow> (nat \<times> Breakpoint) list" where
  "debug_breakpoints s =
     List.map_filter (\<lambda>(i, ob). map_option (Pair i) ob) (enumerate 0 (host s))"

text \<open>The object literal built in \<^verbatim>\<open>syncBreakpoints\<close>; an absent or empty hit condition is falsy.\<close>

definition toInfo :: "SourceBreakpoint \<Rightarrow> BreakpointInfo" where
  "toInfo bp =
     \<lparr>bi_file = fsPath (sb_location bp),
      bi_line = start_line (sb_location bp) + 1,
      bi_column = start_character (sb_location bp),
      bi_condition = sb_condition bp,
      bi_hitCount = (case sb_hitCondition bp of
                       None \<Rightarrow> None
                     | Some h \<Rightarrow> if h = [] then None else Some (parseInt h)),
      bi_logMessage = sb_logMessage bp,
      bi_enabled = sb_enabled bp\<rparr>"

definition mirrorOf :: "(nat \<times> Breakpoint) list \<Rightarrow> (string, BreakpointInfo) alist" where
  "mirrorOf vscodeBreakpoints =
     foldl (\<lambda>m (i, bp). case bp of
                Source sb \<Rightarrow> DAList.update (generateBreakpointId sb) (toInfo sb) m
              | OtherBreakpoint e \<Rightarrow> m)
       DAList.empty vscodeBreakpoints"

definition syncBreakpoints :: "manager \<Rightarrow> manager" where
  "syncBreakpoints s =
     fireGroupsChanged (s\<lparr>breakpoints := mirrorOf (debug_breakpoints s)\<rparr>)"

definition updateBreakpointStates :: "manager \<Rightarrow> manager" where
  "updateBreakpointStates s =
     fireGroupsChanged (s\<lparr>breakpoints :=
       foldl (\<lambda>m (i, bp). case bp of
                  Source sb \<Rightarrow> DAList.map_entry (generateBreakpointId sb)
                                 (\<lambda>info. info\<lparr>bi_enabled := sb_enabled sb\<rparr>) m
                | OtherBreakpoint e \<Rightarrow> m)
         (breakpoints s) (debug_breakpoints s)\<rparr>)"

text \<open>The listener that \<^verbatim>\<open>setupBreakpointListener\<close> registers on \<^verbatim>\<open>onDidChangeBreakpoints\<close>.\<close>

record BreakpointsChangeEvent =
  added :: "Breakpoint list"
  removed :: "Breakpoint list"

definition onDidChangeBreakpoints :: "BreakpointsChangeEvent \<Rightarrow> manager \<Rightarrow> manager" where
  "onDidChangeBreakpoints e s =
     (if added e \<noteq> [] \<or> removed e \<noteq> [] then syncBreakpoints s else updateBreakpointStates s)"

text \<open>
  The constructor: \<^verbatim>\<open>loadGroups\<close> sets every stored group under its id, then the mirror is
  synchronised with the host's breakpoints.
\<close>

definition loadGroups :: "(string \<times> BreakpointGroup) list \<Rightarrow> (string, BreakpointGroup) alist" where
  "loadGroups groupsData = foldl (\<lambda>m (k, g). DAList.update k g m) DAList.empty groupsData"

definition new_BreakpointManager ::
  "(string \<times> BreakpointGroup) list \<Rightarrow> Breakpoint option list \<Rightarrow> manager" where
  "new_BreakpointManager groupsData hostBreakpoints =
     syncBreakpoints \<lparr>groups = loadGroups groupsData, breakpoints = DAList.empty,
                      host = hostBreakpoints, persisted = [groupsData], fired = 0\<rparr>"

subsection \<open>The host's API\<close>

text \<open>
  \<^verbatim>\<open>vscode.debug.removeBreakpoints([bp])\<close> and \<^verbatim>\<open>vscode.debug.addBreakpoints([bp])\<close> belong to
  the host. Their contract here: removing takes the object out of the host's list, if it is
  still in it; adding puts the new object at the end; and the host reports each change it
  made to the \<^verbatim>\<open>onDidChangeBreakpoints\<close> listener, naming the object under \<^verbatim>\<open>removed\<close> or
  \<^verbatim>\<open>added\<close>, before the call returns. The code counts on that report: \<^verbatim>\<open>toggleBreakpoint\<close>
  fires no event of its own and leaves it to \<^verbatim>\<open>onDidChangeBreakpoints\<close>, and
  \<^verbatim>\<open>updateGroupBreakpoints\<close> writes the host only. Every call in the code passes an array of
  one.
\<close>

definition removeBreakpoints :: "nat \<times> Breakpoint \<Rightarrow> manager \<Rightarrow> manager" where
  "removeBreakpoints bp s =
     (if fst bp < length (host s) \<and> host s ! fst bp \<noteq> None
      then onDidChangeBreakpoints \<lparr>added = [], removed = [snd bp]\<rparr>
             (s\<lparr>host := (host s)[fst bp := None]\<rparr>)
      else s)"

definition addBreakpoints :: "Breakpoint \<Rightarrow> manager \<Rightarrow> manager" where
  "addBreakpoints bp s =
     onDidChangeBreakpoints \<lparr>added = [bp], removed = []\<rparr> (s\<lparr>host := host s @ [Some bp]\<rparr>)"


text \<open>
  \<^verbatim>\<open>vscodeBreakpoints.find(bp => bp instanceof vscode.SourceBreakpoint &&
  this.generateBreakpointId(bp) === breakpointId)\<close>
\<close>

fun findSourceBreakpoint ::
  "string \<Rightarrow> (nat \<times> Breakpoint) list \<Rightarrow> (nat \<times> SourceBreakpoint) option" where
  "findSourceBreakpoint breakpointId [] = None"
| "findSourceBreakpoint breakpointId ((i, Source sb) # rest) =
     (if generateBreakpointId sb = breakpointId then Some (i, sb)
      else findSourceBreakpoint breakpointId rest)"
| "findSourceBreakpoint breakpointId ((i, OtherBreakpoint e) # rest) =
     findSourceBreakpoint breakpointId rest"

subsection \<open>Enabling and disabling\<close>

definition toggleBreakpoint :: "string \<Rightarrow> bool \<Rightarrow> manager \<Rightarrow> manager" where
  "toggleBreakpoint breakpointId en s =
     (case findSourceBreakpoint breakpointId (debug_breakpoints s) of
        None \<Rightarrow> s
      | Some (i, vscodeBreakpoint) \<Rightarrow>
          let newBreakpoint =
                \<lparr>sb_location = sb_location vscodeBreakpoint, sb_enabled = en,
                 sb_condition = sb_condition vscodeBreakpoint,
                 sb_hitCondition = sb_hitCondition vscodeBreakpoint,
                 sb_logMessage = sb_logMessage vscodeBreakpoint\<rparr>;
              s1 = removeBreakpoints (i, Source vscodeBreakpoint) s;
              s2 = addBreakpoints (Source newBreakpoint) s1
          in s2\<lparr>breakpoints :=
                 DAList.map_entry breakpointId (\<lambda>info. info\<lparr>bi_enabled := en\<rparr>)
                   (breakpoints s2)\<rparr>)"







section \<open>Tree view (treeProvider.ts)\<close>

datatype GroupState = AllEnabled | Partial | AllDisabled

datatype TreeItemCheckboxState = Unchecked | Checked

text \<open>
  \<^verbatim>\<open>resolveTreeItem\<close> on a group item: the state computed from the group's breakpoints, and
  the checkbox it sets (label and tooltip are display text and are left out).
\<close>

definition groupState :: "string \<Rightarrow> manager \<Rightarrow> GroupState" where
  "groupState groupId s =
     (let bps = getBreakpointsInGroup groupId s;
          enabledCount = length (filter (\<lambda>(i, bp). bi_enabled bp) bps)
      in if length bps = 0 then AllDisabled
         else if enabledCount = 0 then AllDisabled
         else if enabledCount = length bps then AllEnabled
         else Partial)"

definition groupCheckboxState :: "string \<Rightarrow> manager \<Rightarrow> TreeItemCheckboxState" where
  "groupCheckboxState groupId s =
     (if groupState groupId s = AllEnabled then Checked
      else if groupState groupId s = AllDisabled then Unchecked
      else Unchecked)"

section \<open>Commands and the checkbox handler (extension.ts)\<close>

text \<open>
  A tree element is a group item (with its \<^verbatim>\<open>groupId\<close>), a breakpoint item inside a group
  (\<^verbatim>\<open>breakpointId\<close>, \<^verbatim>\<open>groupId\<close>) or an ungrouped breakpoint item (\<^verbatim>\<open>breakpointId\<close>).
\<close>

datatype TreeElement =
    BreakpointGroupItem string
  | BreakpointItem string string
  | UngroupedBreakpointItem string

datatype UserAction = group_action | breakpoint_action

datatype message = Information string | Warning string

text \<open>
  The module's state: the manager, the two variables of the checkbox handler, and the
  messages shown so far (latest first).
\<close>

record extension =
  breakpointManager :: manager
  isUpdatingCheckbox :: bool
  lastUserAction :: "UserAction option"
  shown :: "message list"

definition showMessage :: "message \<Rightarrow> extension \<Rightarrow> extension" where
  "showMessage msg x = x\<lparr>shown := msg # shown x\<rparr>"

text \<open>\<^verbatim>\<open>element && element.breakpointId\<close>: the id when the element has a non-empty one.\<close>

fun element_breakpointId :: "TreeElement option \<Rightarrow> string option" where
  "element_breakpointId None = None"
| "element_breakpointId (Some (BreakpointGroupItem groupId)) = None"
| "element_breakpointId (Some (BreakpointItem breakpointId groupId)) =
     (if breakpointId = [] then None else Some breakpointId)"
| "element_breakpointId (Some (UngroupedBreakpointItem breakpointId)) =
     (if breakpointId = [] then None else Some breakpointId)"






text \<open>
  \<^verbatim>\<open>removeAllGroups\<close>; \<open>confirm\<close> is what the warning dialog returns (the label of the button
  pressed, or nothing when it is dismissed).
\<close>

lift_definition map_values :: "('v \<Rightarrow> 'v) \<Rightarrow> ('k, 'v) alist \<Rightarrow> ('k, 'v) alist"
  is "\<lambda>f. map (\<lambda>kv. (fst kv, f (snd kv)))"
  by (simp add: comp_def)

definition removeAllGroups :: "string option \<Rightarrow> extension \<Rightarrow> extension" where
  "removeAllGroups confirm x =
     (let gs = getGroups (breakpointManager x)
      in if length gs = 0 then showMessage (Information ''No groups found'') x
         else if confirm = Some ''Remove All Groups''
         then showMessage
                (Information (''Removed all '' @ dec (length gs)
                              @ '' groups. Breakpoints are now ungrouped.''))
                (x\<lparr>breakpointManager := fireGroupsChanged (saveGroups
                     ((breakpointManager x)\<lparr>groups :=
                        map_values (\<lambda>g. g\<lparr>g_breakpoints := []\<rparr>)
                          (groups (breakpointManager x))\<rparr>))\<rparr>)
         else x)"

text \<open>
  \<^verbatim>\<open>moveBreakpointToGroup\<close>; \<open>selectedGroup\<close> is what the quick pick returns: one of the listed
  groups, or nothing when it is dismissed. The manager's state is taken not to change while
  the pick is open.
\<close>

definition moveBreakpointToGroup ::
  "TreeElement option \<Rightarrow> (string \<times> BreakpointGroup) option \<Rightarrow> extension \<Rightarrow> extension" where
  "moveBreakpointToGroup element selectedGroup x =
     (case element_breakpointId element of
        None \<Rightarrow> showMessage (Warning ''No breakpoint selected'') x
      | Some breakpointId \<Rightarrow>
          if length (getGroups (breakpointManager x)) = 0
          then showMessage (Warning ''No groups exist. Create one first.'') x
          else (case selectedGroup of
                  None \<Rightarrow> x
                | Some (groupId, g) \<Rightarrow>
                    let m1 = (case getGroupForBreakpoint breakpointId (breakpointManager x) of
                                None \<Rightarrow> breakpointManager x
                              | Some (currentId, currentGroup) \<Rightarrow>
                                  removeBreakpointFromGroup breakpointId currentId
                                    (breakpointManager x));
                        m2 = addBreakpointToGroup breakpointId groupId m1
                    in showMessage (Information (''Moved breakpoint to group: '' @ g_name g))
                         (x\<lparr>breakpointManager := m2\<rparr>)))"

section \<open>Vocabulary of the properties\<close>

text \<open>
  No identity in the member lists of two groups: the member lists of the store are pairwise
  disjoint (an identity twice in one list does not count).
\<close>

fun disjoint_lists :: "'a list list \<Rightarrow> bool" where
  "disjoint_lists [] = True"
| "disjoint_lists (l # ls) = ((\<forall>m\<in>set ls. set l \<inter> set m = {}) \<and> disjoint_lists ls)"

definition singleMembership :: "manager \<Rightarrow> bool" where
  "singleMembership s = disjoint_lists (map (\<lambda>(k, g). g_breakpoints g) (getGroups s))"

text \<open>
  A sequence of operations on the store: \<^verbatim>\<open>addBreakpointToGroup\<close> calls and
  \<^verbatim>\<open>moveBreakpointToGroup\<close> commands, run from left to right.
\<close>

datatype store_op =
    AddMember string string
  | Move "TreeElement option" "(string \<times> BreakpointGroup) option"

fun apply_op :: "store_op \<Rightarrow> extension \<Rightarrow> extension" where
  "apply_op (AddMember breakpointId groupId) x =
     x\<lparr>breakpointManager := addBreakpointToGroup breakpointId groupId (breakpointManager x)\<rparr>"
| "apply_op (Move element selectedGroup) x = moveBreakpointToGroup element selectedGroup x"

fun run_ops :: "store_op list \<Rightarrow> extension \<Rightarrow> extension" where
  "run_ops [] x = x"
| "run_ops (op # ops) x = run_ops ops (apply_op op x)"

text \<open>
  \<open>inNoOtherGroup b g\<close>: no group but \<open>g\<close> lists \<open>b\<close>. \<open>adds_to_ungrouped\<close>: every
  \<open>AddMember\<close> of the sequence finds its breakpoint in no other group, in the state it is
  applied to.
\<close>

definition inNoOtherGroup :: "string \<Rightarrow> string \<Rightarrow> manager \<Rightarrow> bool" where
  "inNoOtherGroup breakpointId groupId s =
     (\<forall>(k, g)\<in>set (getGroups s). breakpointId \<in> set (g_breakpoints g) \<longrightarrow> k = groupId)"

fun adds_to_ungrouped :: "store_op list \<Rightarrow> extension \<Rightarrow> bool" where
  "adds_to_ungrouped [] x = True"
| "adds_to_ungrouped (AddMember b g # ops) x =
     (inNoOtherGroup b g (breakpointManager x) \<and> adds_to_ungrouped ops (apply_op (AddMember b g) x))"
| "adds_to_ungrouped (op # ops) x = adds_to_ungrouped ops (apply_op op x)"



section \<open>Auxiliary notions\<close>

text \<open>
  \<open>live n obs\<close> lists the objects of \<open>obs\<close> that are still there, addressed from \<open>n\<close> on;
  \<open>sourcesWithId k\<close> keeps the source breakpoints with identity \<open>k\<close>.
\<close>

fun live :: "nat \<Rightarrow> Breakpoint option list \<Rightarrow> (nat \<times> Breakpoint) list" where
  "live n [] = []"
| "live n (None # obs) = live (Suc n) obs"
| "live n (Some bp # obs) = (n, bp) # live (Suc n) obs"

fun sourcesWithId :: "string \<Rightarrow> (nat \<times> Breakpoint) list \<Rightarrow> SourceBreakpoint list" where
  "sourcesWithId k [] = []"
| "sourcesWithId k ((i, Source sb) # rest) =
     (if generateBreakpointId sb = k then sb # sourcesWithId k rest else sourcesWithId k rest)"
| "sourcesWithId k ((i, OtherBreakpoint e) # rest) = sourcesWithId k rest"

text \<open>
  \<open>replaced sb en\<close> is the object built by \<^verbatim>\<open>new vscode.SourceBreakpoint(...)\<close> from \<open>sb\<close> and
  the flag \<open>en\<close>; \<open>swapped\<close> is the pair of host calls that puts it in the place of \<open>sb\<close>.
\<close>

definition replaced :: "SourceBreakpoint \<Rightarrow> bool \<Rightarrow> SourceBreakpoint" where
  "replaced sb en = sb\<lparr>sb_enabled := en\<rparr>"

definition swapped :: "nat \<Rightarrow> SourceBreakpoint \<Rightarrow> bool \<Rightarrow> manager \<Rightarrow> manager" where
  "swapped i sb en s =
     addBreakpoints (Source (replaced sb en)) (removeBreakpoints (i, Source sb) s)"

text \<open>The manager after the two calls of a move: out of the current group, into the chosen one.\<close>

definition moved :: "string \<Rightarrow> string \<Rightarrow> manager \<Rightarrow> manager" where
  "moved b dest s =
     addBreakpointToGroup b dest
       (case getGroupForBreakpoint b s of
          None \<Rightarrow> s
        | Some (currentId, currentGroup) \<Rightarrow> removeBreakpointFromGroup b currentId s)"



section \<open>An example workspace\<close>

text \<open>
  Three source breakpoints and one other breakpoint in the host; two stored groups, the first
  of which still lists a breakpoint that is gone from the host. \<open>scenario\<close> is a second
  workspace: one breakpoint at line 10 of \<^verbatim>\<open>/a.js\<close>, a new group \<^verbatim>\<open>DB\<close>, and the breakpoint
  added to it.
\<close>

definition hostA :: SourceBreakpoint where
  "hostA = \<lparr>sb_location = \<lparr>fsPath = ''/a.js'', start_line = 9, start_character = 0\<rparr>,
            sb_enabled = True, sb_condition = None, sb_hitCondition = None,
            sb_logMessage = None\<rparr>"

definition hostB :: SourceBreakpoint where
  "hostB = \<lparr>sb_location = \<lparr>fsPath = ''/b.js'', start_line = 1, start_character = 4\<rparr>,
            sb_enabled = False, sb_condition = Some ''x > 1'', sb_hitCondition = Some ''3'',
            sb_logMessage = None\<rparr>"

definition hostC :: SourceBreakpoint where
  "hostC = \<lparr>sb_location = \<lparr>fsPath = ''/c.js'', start_line = 6, start_character = 0\<rparr>,
            sb_enabled = True, sb_condition = None, sb_hitCondition = None,
            sb_logMessage = None\<rparr>"

definition demo_groups :: "(string \<times> BreakpointGroup) list" where
  "demo_groups =
     [(''g1'', \<lparr>g_name = ''DB'', g_breakpoints = [''/a.js:10'', ''/gone.js:3''],
               g_enabled = True, g_color = None, g_description = None\<rparr>),
      (''g2'', \<lparr>g_name = ''UI'', g_breakpoints = [''/b.js:2''],
               g_enabled = True, g_color = None, g_description = None\<rparr>)]"

definition demo :: manager where
  "demo = new_BreakpointManager demo_groups
            [Some (Source hostA), Some (OtherBreakpoint True), Some (Source hostB),
             Some (Source hostC)]"

definition demo_x :: extension where
  "demo_x = \<lparr>breakpointManager = demo, isUpdatingCheckbox = False, lastUserAction = None,
             shown = []\<rparr>"


text \<open>
  Three more workspaces. \<open>twins\<close> has two breakpoints on line 10 of \<^verbatim>\<open>/a.js\<close>, at columns 0
  and 5, which share the identity \<^verbatim>\<open>/a.js:10\<close>, and a group \<^verbatim>\<open>DB\<close> with that identity as its
  member. \<open>line_moved\<close> is \<open>scenario\<close> after the host has moved its breakpoint one line down.
  \<open>twice_listed\<close> has three groups; \<^verbatim>\<open>/a.js:10\<close> was added to the first and to the second,
  and then the breakpoint was removed from the host.
\<close>

definition hostA5 :: SourceBreakpoint where
  "hostA5 = \<lparr>sb_location = \<lparr>fsPath = ''/a.js'', start_line = 9, start_character = 5\<rparr>,
             sb_enabled = True, sb_condition = None, sb_hitCondition = None,
             sb_logMessage = None\<rparr>"


definition twins :: manager where
  "twins =
     addBreakpointToGroup ''/a.js:10'' ''g1''
       (createGroup ''g1'' ''DB'' None
          (new_BreakpointManager [] [Some (Source hostA), Some (Source hostA5)]))"


definition twice_listed :: extension where
  "twice_listed =
     \<lparr>breakpointManager =
        removeBreakpoints (0, Source hostA)
          (addBreakpointToGroup ''/a.js:10'' ''g2''
            (addBreakpointToGroup ''/a.js:10'' ''g1''
              (createGroup ''g3'' ''API'' None
                (createGroup ''g2'' ''UI'' None
                  (createGroup ''g1'' ''DB'' None
                    (new_BreakpointManager [] [Some (Source hostA)])))))),
      isUpdatingCheckbox = False, lastUserAction = None, shown = []\<rparr>"

section \<open>Facts about maps\<close>

lemma lookup_map_entry:
  "DAList.lookup (DAList.map_entry k f m) k' =
     (if k' = k then map_option f (DAList.lookup m k) else DAList.lookup m k')"
  by transfer (auto simp: map_of_map_entry split: option.splits)

lemma raw_map_entry_keys: "map fst (AList.map_entry k f xs) = map fst xs"
  by (induction xs) auto

lemma raw_map_entry_absent: "map_of xs k = None \<Longrightarrow> AList.map_entry k f xs = xs"
  by (induction xs) (auto split: if_splits)

lemma raw_map_entry_fixed:
  "map_of xs k = Some v \<Longrightarrow> f v = v \<Longrightarrow> AList.map_entry k f xs = xs"
  by (induction xs) (auto split: if_splits)

lemma keys_map_entry:
  "map fst (DAList.impl_of (DAList.map_entry k f m)) = map fst (DAList.impl_of m)"
  by (simp add: DAList.map_entry.rep_eq raw_map_entry_keys)

lemma map_entry_absent:
  "DAList.lookup m k = None \<Longrightarrow> DAList.map_entry k f m = m"
  by transfer (simp add: raw_map_entry_absent)

lemma map_entry_fixed:
  "DAList.lookup m k = Some v \<Longrightarrow> f v = v \<Longrightarrow> DAList.map_entry k f m = m"
  by transfer (simp add: raw_map_entry_fixed)

lemma entry_iff_lookup:
  "(k, v) \<in> set (DAList.impl_of m) \<longleftrightarrow> DAList.lookup m k = Some v"
  by transfer simp

lemma set_map_filter_conv:
  "set (List.map_filter f xs) = {y. \<exists>x\<in>set xs. f x = Some y}"
  by (induction xs) (auto simp: map_filter_simps split: option.splits)

lemma find_Some_member: "List.find P xs = Some x \<Longrightarrow> x \<in> set xs \<and> P x"
  by (induction xs) (auto split: if_splits)

lemma filter_none_iff: "length (filter P xs) = 0 \<longleftrightarrow> (\<forall>x\<in>set xs. \<not> P x)"
  by (simp add: filter_empty_conv)

lemma filter_all_iff: "length (filter P xs) = length xs \<longleftrightarrow> (\<forall>x\<in>set xs. P x)"
proof -
  have "length (filter P xs) + length (filter (\<lambda>x. \<not> P x) xs) = length xs"
    by (rule sum_length_filter_compl)
  then have "length (filter P xs) = length xs \<longleftrightarrow> length (filter (\<lambda>x. \<not> P x) xs) = 0"
    by arith
  then show ?thesis by (simp add: filter_empty_conv)
qed

section \<open>The example workspace, evaluated\<close>

lemma demo_ids:
  "generateBreakpointId hostA = ''/a.js:10''"
  "generateBreakpointId hostB = ''/b.js:2''"
  "generateBreakpointId hostC = ''/c.js:7''"
  by (simp_all add: generateBreakpointId_def hostA_def hostB_def hostC_def dec.simps)

lemma demo_groups_impl: "DAList.impl_of (groups demo) = demo_groups"
  by (simp add: demo_def new_BreakpointManager_def syncBreakpoints_def fireGroupsChanged_def
      loadGroups_def demo_groups_def DAList.update.rep_eq DAList.empty.rep_eq)

lemma demo_mirror_impl:
  "DAList.impl_of (breakpoints demo) =
     [(''/a.js:10'', toInfo hostA), (''/b.js:2'', toInfo hostB), (''/c.js:7'', toInfo hostC)]"
  by (simp add: demo_def new_BreakpointManager_def syncBreakpoints_def fireGroupsChanged_def
      debug_breakpoints_def mirrorOf_def map_filter_simps demo_ids DAList.update.rep_eq
      DAList.empty.rep_eq)

lemma demo_enabled:
  "bi_enabled (toInfo hostA)" "\<not> bi_enabled (toInfo hostB)" "bi_enabled (toInfo hostC)"
  by (simp_all add: toInfo_def hostA_def hostB_def hostC_def)

section \<open>The state shown for a group\<close>

lemma set_getBreakpointsInGroup:
  "DAList.lookup (groups s) groupId = Some G \<Longrightarrow>
   set (getBreakpointsInGroup groupId s) =
     {(i, bp). i \<in> set (g_breakpoints G) \<and> DAList.lookup (breakpoints s) i = Some bp}"
  by (auto simp: getBreakpointsInGroup_def set_map_filter_conv)

lemma getBreakpointsInGroup_absent:
  "DAList.lookup (groups s) groupId = None \<Longrightarrow> getBreakpointsInGroup groupId s = []"
  by (simp add: getBreakpointsInGroup_def)

text \<open>
  C1. For a group of the store, the state that \<^verbatim>\<open>resolveTreeItem\<close> computes is
  \<open>AllEnabled\<close> exactly when some member is in the mirror and every member that is in the
  mirror is enabled there; it is \<open>AllDisabled\<close> exactly when no member is in the mirror or no
  member that is in the mirror is enabled; and it is \<open>Partial\<close> in the remaining case, when
  the mirror holds an enabled member and a disabled one.
\<close>

theorem groupState_tri_state:
  assumes G: "DAList.lookup (groups s) groupId = Some G"
  shows "(groupState groupId s = AllEnabled \<longleftrightarrow>
            (\<exists>m\<in>set (g_breakpoints G). DAList.lookup (breakpoints s) m \<noteq> None) \<and>
            (\<forall>m\<in>set (g_breakpoints G). \<forall>bp.
               DAList.lookup (breakpoints s) m = Some bp \<longrightarrow> bi_enabled bp))
       \<and> (groupState groupId s = AllDisabled \<longleftrightarrow>
            (\<forall>m\<in>set (g_breakpoints G). DAList.lookup (breakpoints s) m = None) \<or>
            (\<forall>m\<in>set (g_breakpoints G). \<forall>bp.
               DAList.lookup (breakpoints s) m = Some bp \<longrightarrow> \<not> bi_enabled bp))
       \<and> (groupState groupId s = Partial \<longleftrightarrow>
            (\<exists>m\<in>set (g_breakpoints G). \<exists>bp.
               DAList.lookup (breakpoints s) m = Some bp \<and> bi_enabled bp) \<and>
            (\<exists>m\<in>set (g_breakpoints G). \<exists>bp.
               DAList.lookup (breakpoints s) m = Some bp \<and> \<not> bi_enabled bp))"
proof -
  let ?bps = "getBreakpointsInGroup groupId s"
  let ?cnt = "length (filter (\<lambda>(i, bp). bi_enabled bp) ?bps)"
  have S: "set ?bps =
     {(i, bp). i \<in> set (g_breakpoints G) \<and> DAList.lookup (breakpoints s) i = Some bp}"
    by (rule set_getBreakpointsInGroup [OF G])
  have empty: "length ?bps = 0 \<longleftrightarrow>
      (\<forall>m\<in>set (g_breakpoints G). DAList.lookup (breakpoints s) m = None)"
  proof -
    have "length ?bps = 0 \<longleftrightarrow> set ?bps = {}" by simp
    also have "\<dots> \<longleftrightarrow> (\<forall>m\<in>set (g_breakpoints G). DAList.lookup (breakpoints s) m = None)"
      unfolding S by auto
    finally show ?thesis .
  qed
  have none: "?cnt = 0 \<longleftrightarrow>
      (\<forall>m\<in>set (g_breakpoints G). \<forall>bp.
         DAList.lookup (breakpoints s) m = Some bp \<longrightarrow> \<not> bi_enabled bp)"
    unfolding filter_none_iff S by auto
  have all: "?cnt = length ?bps \<longleftrightarrow>
      (\<forall>m\<in>set (g_breakpoints G). \<forall>bp.
         DAList.lookup (breakpoints s) m = Some bp \<longrightarrow> bi_enabled bp)"
    unfolding filter_all_iff S by auto
  have st: "groupState groupId s =
      (if length ?bps = 0 then AllDisabled
       else if ?cnt = 0 then AllDisabled
       else if ?cnt = length ?bps then AllEnabled else Partial)"
    by (simp add: groupState_def Let_def)
  show ?thesis
    unfolding st using empty none all by (auto split: if_splits)
qed

theorem groupState_tri_state_witness:
  "DAList.lookup (groups demo) ''g1'' = Some (snd (hd demo_groups))
   \<and> groupState ''g1'' demo = AllEnabled
   \<and> groupState ''g2'' demo = AllDisabled"
proof -
  have g1: "DAList.lookup (groups demo) ''g1'' = Some (snd (hd demo_groups))"
    by (simp add: DAList.lookup.rep_eq demo_groups_impl) (simp add: demo_groups_def)
  have g2: "DAList.lookup (groups demo) ''g2'' = Some (snd (demo_groups ! 1))"
    by (simp add: DAList.lookup.rep_eq demo_groups_impl) (simp add: demo_groups_def)
  have "groupState ''g1'' demo = AllEnabled"
    using groupState_tri_state [OF g1]
    by (simp add: demo_groups_def DAList.lookup.rep_eq demo_mirror_impl demo_enabled)
  moreover have "groupState ''g2'' demo = AllDisabled"
    using groupState_tri_state [OF g2]
    by (simp add: demo_groups_def DAList.lookup.rep_eq demo_mirror_impl demo_enabled)
  ultimately show ?thesis using g1 by simp
qed

section \<open>Grouped and ungrouped breakpoints\<close>

text \<open>
  C6. In every state, the ungrouped breakpoints together with the breakpoints that
  \<^verbatim>\<open>getBreakpointsInGroup\<close> returns for the groups of the store are exactly the mirrored
  breakpoints, and no ungrouped breakpoint is returned for any group.
\<close>

theorem ungrouped_and_groups_cover_mirror:
  "set (getUngroupedBreakpoints s)
     \<union> (\<Union>(k, g)\<in>set (getGroups s). set (getBreakpointsInGroup k s))
   = set (getBreakpoints s)
   \<and> (\<forall>k. set (getUngroupedBreakpoints s) \<inter> set (getBreakpointsInGroup k s) = {})"
proof (intro conjI allI)
  have grp: "set (getBreakpointsInGroup k s) =
      {(i, bp). i \<in> set (g_breakpoints g) \<and> DAList.lookup (breakpoints s) i = Some bp}"
    if "(k, g) \<in> set (getGroups s)" for k g
    using that by (simp add: getGroups_def entry_iff_lookup set_getBreakpointsInGroup)
  show "set (getUngroupedBreakpoints s)
     \<union> (\<Union>(k, g)\<in>set (getGroups s). set (getBreakpointsInGroup k s))
   = set (getBreakpoints s)"
  proof (intro set_eqI iffI)
    fix p
    assume "p \<in> set (getUngroupedBreakpoints s)
      \<union> (\<Union>(k, g)\<in>set (getGroups s). set (getBreakpointsInGroup k s))"
    then show "p \<in> set (getBreakpoints s)"
      by (auto simp: getUngroupedBreakpoints_def grp getBreakpoints_def entry_iff_lookup)
  next
    fix p
    assume p: "p \<in> set (getBreakpoints s)"
    obtain i bp where ibp: "p = (i, bp)" by (cases p)
    from p ibp have look: "DAList.lookup (breakpoints s) i = Some bp"
      by (simp add: getBreakpoints_def entry_iff_lookup)
    show "p \<in> set (getUngroupedBreakpoints s)
      \<union> (\<Union>(k, g)\<in>set (getGroups s). set (getBreakpointsInGroup k s))"
    proof (cases "i \<in> groupedBreakpointIds s")
      case True
      then obtain k g where kg: "(k, g) \<in> set (getGroups s)" and "i \<in> set (g_breakpoints g)"
        by (auto simp: groupedBreakpointIds_def)
      with look have "p \<in> set (getBreakpointsInGroup k s)"
        by (simp add: grp [OF kg] ibp)
      with kg show ?thesis by blast
    next
      case False
      with p ibp show ?thesis by (simp add: getUngroupedBreakpoints_def)
    qed
  qed
next
  fix k
  show "set (getUngroupedBreakpoints s) \<inter> set (getBreakpointsInGroup k s) = {}"
  proof (cases "DAList.lookup (groups s) k")
    case None
    then show ?thesis by (simp add: getBreakpointsInGroup_absent)
  next
    case (Some g)
    then have "(k, g) \<in> set (getGroups s)"
      by (simp add: getGroups_def entry_iff_lookup)
    then have "i \<in> groupedBreakpointIds s" if "i \<in> set (g_breakpoints g)" for i
      using that by (auto simp: groupedBreakpointIds_def)
    then show ?thesis
      by (auto simp: set_getBreakpointsInGroup [OF Some] getUngroupedBreakpoints_def)
  qed
qed

theorem ungrouped_and_groups_cover_mirror_witness:
  "getUngroupedBreakpoints demo = [(''/c.js:7'', toInfo hostC)]
   \<and> set (getUngroupedBreakpoints demo)
       \<union> (set (getBreakpointsInGroup ''g1'' demo) \<union> set (getBreakpointsInGroup ''g2'' demo))
     = set (getBreakpoints demo)
   \<and> set (getUngroupedBreakpoints demo) \<inter> set (getBreakpointsInGroup ''g1'' demo) = {}"
proof -
  have "getUngroupedBreakpoints demo = [(''/c.js:7'', toInfo hostC)]"
    by (simp add: getUngroupedBreakpoints_def groupedBreakpointIds_def getGroups_def
        getBreakpoints_def demo_groups_impl demo_mirror_impl) (simp add: demo_groups_def)
  moreover have "(\<Union>(k, g)\<in>set (getGroups demo). set (getBreakpointsInGroup k demo))
      = set (getBreakpointsInGroup ''g1'' demo) \<union> set (getBreakpointsInGroup ''g2'' demo)"
    by (simp add: getGroups_def demo_groups_impl) (simp add: demo_groups_def)
  ultimately show ?thesis
    using ungrouped_and_groups_cover_mirror [of demo] by simp
qed

section \<open>Adding and removing members\<close>

text \<open>
  C9. \<^verbatim>\<open>addBreakpointToGroup\<close> twice is the same as once. It leaves the state as it is when
  the group is absent, when the breakpoint is not in the mirror, or when the breakpoint is
  already a member; otherwise it puts the identity at the end of the group's member list,
  changes no other group, saves and notifies.
\<close>

theorem addBreakpointToGroup_idempotent:
  "addBreakpointToGroup b g (addBreakpointToGroup b g s) = addBreakpointToGroup b g s
   \<and> (DAList.lookup (groups s) g = None \<or> DAList.lookup (breakpoints s) b = None
        \<or> (\<exists>G. DAList.lookup (groups s) g = Some G \<and> b \<in> set (g_breakpoints G))
      \<longrightarrow> addBreakpointToGroup b g s = s)
   \<and> (\<forall>G. DAList.lookup (groups s) g = Some G \<and> DAList.lookup (breakpoints s) b \<noteq> None
            \<and> b \<notin> set (g_breakpoints G) \<longrightarrow>
          DAList.lookup (groups (addBreakpointToGroup b g s)) g
            = Some (G\<lparr>g_breakpoints := g_breakpoints G @ [b]\<rparr>)
          \<and> (\<forall>k. k \<noteq> g \<longrightarrow> DAList.lookup (groups (addBreakpointToGroup b g s)) k
                               = DAList.lookup (groups s) k)
          \<and> map fst (getGroups (addBreakpointToGroup b g s)) = map fst (getGroups s)
          \<and> breakpoints (addBreakpointToGroup b g s) = breakpoints s
          \<and> host (addBreakpointToGroup b g s) = host s
          \<and> persisted (addBreakpointToGroup b g s)
              = getGroups (addBreakpointToGroup b g s) # persisted s
          \<and> fired (addBreakpointToGroup b g s) = Suc (fired s))"
proof (intro conjI)
  show "addBreakpointToGroup b g (addBreakpointToGroup b g s) = addBreakpointToGroup b g s"
    by (auto simp: addBreakpointToGroup_def saveGroups_def fireGroupsChanged_def
        lookup_map_entry split: option.splits)
  show "DAList.lookup (groups s) g = None \<or> DAList.lookup (breakpoints s) b = None
        \<or> (\<exists>G. DAList.lookup (groups s) g = Some G \<and> b \<in> set (g_breakpoints G))
      \<longrightarrow> addBreakpointToGroup b g s = s"
    by (auto simp: addBreakpointToGroup_def split: option.splits)
  show "\<forall>G. DAList.lookup (groups s) g = Some G \<and> DAList.lookup (breakpoints s) b \<noteq> None
            \<and> b \<notin> set (g_breakpoints G) \<longrightarrow>
          DAList.lookup (groups (addBreakpointToGroup b g s)) g
            = Some (G\<lparr>g_breakpoints := g_breakpoints G @ [b]\<rparr>)
          \<and> (\<forall>k. k \<noteq> g \<longrightarrow> DAList.lookup (groups (addBreakpointToGroup b g s)) k
                               = DAList.lookup (groups s) k)
          \<and> map fst (getGroups (addBreakpointToGroup b g s)) = map fst (getGroups s)
          \<and> breakpoints (addBreakpointToGroup b g s) = breakpoints s
          \<and> host (addBreakpointToGroup b g s) = host s
          \<and> persisted (addBreakpointToGroup b g s)
              = getGroups (addBreakpointToGroup b g s) # persisted s
          \<and> fired (addBreakpointToGroup b g s) = Suc (fired s)"
    by (auto simp: addBreakpointToGroup_def saveGroups_def fireGroupsChanged_def
        lookup_map_entry keys_map_entry getGroups_def)
qed

theorem addBreakpointToGroup_idempotent_witness:
  "map (\<lambda>(k, g). (k, g_breakpoints g)) (getGroups (addBreakpointToGroup ''/c.js:7'' ''g2'' demo))
     = [(''g1'', [''/a.js:10'', ''/gone.js:3'']), (''g2'', [''/b.js:2'', ''/c.js:7''])]
   \<and> addBreakpointToGroup ''/c.js:7'' ''g2'' (addBreakpointToGroup ''/c.js:7'' ''g2'' demo)
      = addBreakpointToGroup ''/c.js:7'' ''g2'' demo
   \<and> addBreakpointToGroup ''/gone.js:3'' ''g2'' demo = demo
   \<and> fired (addBreakpointToGroup ''/c.js:7'' ''g2'' demo) = Suc (fired demo)"
proof -
  have g2: "DAList.lookup (groups demo) ''g2'' = Some (snd (demo_groups ! 1))"
    by (simp add: DAList.lookup.rep_eq demo_groups_impl) (simp add: demo_groups_def)
  have c: "DAList.lookup (breakpoints demo) ''/c.js:7'' \<noteq> None"
    by (simp add: DAList.lookup.rep_eq demo_mirror_impl)
  have gone: "DAList.lookup (breakpoints demo) ''/gone.js:3'' = None"
    by (simp add: DAList.lookup.rep_eq demo_mirror_impl)
  have nm: "''/c.js:7'' \<notin> set (g_breakpoints (snd (demo_groups ! 1)))"
    by (simp add: demo_groups_def)
  have list: "map (\<lambda>(k, g). (k, g_breakpoints g))
        (getGroups (addBreakpointToGroup ''/c.js:7'' ''g2'' demo))
     = [(''g1'', [''/a.js:10'', ''/gone.js:3'']), (''g2'', [''/b.js:2'', ''/c.js:7''])]"
    using g2 c
    by (simp add: addBreakpointToGroup_def getGroups_def saveGroups_def fireGroupsChanged_def
        DAList.map_entry.rep_eq demo_groups_impl) (simp add: demo_groups_def)
  from addBreakpointToGroup_idempotent [of "''/c.js:7''" "''g2''" demo] g2 c nm
  have "addBreakpointToGroup ''/c.js:7'' ''g2'' (addBreakpointToGroup ''/c.js:7'' ''g2'' demo)
      = addBreakpointToGroup ''/c.js:7'' ''g2'' demo"
    and "fired (addBreakpointToGroup ''/c.js:7'' ''g2'' demo) = Suc (fired demo)"
    by blast+
  moreover from addBreakpointToGroup_idempotent [of "''/gone.js:3''" "''g2''" demo] gone
  have "addBreakpointToGroup ''/gone.js:3'' ''g2'' demo = demo"
    by blast
  ultimately show ?thesis using list by simp
qed

text \<open>
  C7, as the code has it. For a group that exists, \<^verbatim>\<open>removeBreakpointFromGroup\<close> filters the
  member list, saves and notifies, also when the identity was not a member and the groups
  are left as they were. For a group that does not exist it does nothing: it neither saves
  nor notifies.
\<close>

theorem removeBreakpointFromGroup_notifies_when_group_exists:
  "(\<forall>G. DAList.lookup (groups s) g = Some G \<longrightarrow>
       DAList.lookup (groups (removeBreakpointFromGroup b g s)) g
         = Some (G\<lparr>g_breakpoints := filter (\<lambda>i. i \<noteq> b) (g_breakpoints G)\<rparr>)
       \<and> (b \<notin> set (g_breakpoints G) \<longrightarrow> groups (removeBreakpointFromGroup b g s) = groups s)
       \<and> persisted (removeBreakpointFromGroup b g s)
           = getGroups (removeBreakpointFromGroup b g s) # persisted s
       \<and> fired (removeBreakpointFromGroup b g s) = Suc (fired s))
   \<and> (DAList.lookup (groups s) g = None \<longrightarrow> removeBreakpointFromGroup b g s = s)"
proof (intro conjI allI impI)
  fix G
  assume G: "DAList.lookup (groups s) g = Some G"
  show "DAList.lookup (groups (removeBreakpointFromGroup b g s)) g
         = Some (G\<lparr>g_breakpoints := filter (\<lambda>i. i \<noteq> b) (g_breakpoints G)\<rparr>)"
    using G by (simp add: removeBreakpointFromGroup_def saveGroups_def fireGroupsChanged_def
        lookup_map_entry)
  show "persisted (removeBreakpointFromGroup b g s)
           = getGroups (removeBreakpointFromGroup b g s) # persisted s"
    using G by (simp add: removeBreakpointFromGroup_def saveGroups_def fireGroupsChanged_def
        getGroups_def)
  show "fired (removeBreakpointFromGroup b g s) = Suc (fired s)"
    using G by (simp add: removeBreakpointFromGroup_def saveGroups_def fireGroupsChanged_def)
  assume nb: "b \<notin> set (g_breakpoints G)"
  then have "filter (\<lambda>i. i \<noteq> b) (g_breakpoints G) = g_breakpoints G"
    by (auto simp: filter_id_conv)
  then have "DAList.map_entry g (\<lambda>g. g\<lparr>g_breakpoints := filter (\<lambda>i. i \<noteq> b) (g_breakpoints g)\<rparr>)
      (groups s) = groups s"
    using G by (intro map_entry_fixed [where v = G]) simp_all
  then show "groups (removeBreakpointFromGroup b g s) = groups s"
    using G by (simp add: removeBreakpointFromGroup_def saveGroups_def fireGroupsChanged_def)
next
  assume "DAList.lookup (groups s) g = None"
  then show "removeBreakpointFromGroup b g s = s"
    by (simp add: removeBreakpointFromGroup_def)
qed

theorem removeBreakpointFromGroup_notifies_when_group_exists_witness:
  "DAList.lookup (groups demo) ''g1'' = Some (snd (hd demo_groups))
   \<and> ''/c.js:7'' \<notin> set (g_breakpoints (snd (hd demo_groups)))
   \<and> groups (removeBreakpointFromGroup ''/c.js:7'' ''g1'' demo) = groups demo
   \<and> persisted (removeBreakpointFromGroup ''/c.js:7'' ''g1'' demo)
       = demo_groups # persisted demo
   \<and> fired (removeBreakpointFromGroup ''/c.js:7'' ''g1'' demo) = Suc (fired demo)"
proof -
  have g1: "DAList.lookup (groups demo) ''g1'' = Some (snd (hd demo_groups))"
    by (simp add: DAList.lookup.rep_eq demo_groups_impl) (simp add: demo_groups_def)
  have nm: "''/c.js:7'' \<notin> set (g_breakpoints (snd (hd demo_groups)))"
    by (simp add: demo_groups_def)
  from removeBreakpointFromGroup_notifies_when_group_exists [of demo "''g1''" "''/c.js:7''"] g1 nm
  have "groups (removeBreakpointFromGroup ''/c.js:7'' ''g1'' demo) = groups demo"
    and "persisted (removeBreakpointFromGroup ''/c.js:7'' ''g1'' demo)
       = getGroups (removeBreakpointFromGroup ''/c.js:7'' ''g1'' demo) # persisted demo"
    and "fired (removeBreakpointFromGroup ''/c.js:7'' ''g1'' demo) = Suc (fired demo)"
    by blast+
  then show ?thesis using g1 nm by (simp add: getGroups_def demo_groups_impl)
qed

text \<open>
  Removing from a group that is not in the store is not notified: the example workspace has
  no group \<^verbatim>\<open>g9\<close>, and the call leaves the whole state, its notification count included, as
  it was.
\<close>

theorem removeBreakpointFromGroup_absent_group_counterexample:
  "removeBreakpointFromGroup ''/a.js:10'' ''g9'' demo = demo
   \<and> fired (removeBreakpointFromGroup ''/a.js:10'' ''g9'' demo) \<noteq> Suc (fired demo)
   \<and> persisted (removeBreakpointFromGroup ''/a.js:10'' ''g9'' demo) = persisted demo"
proof -
  have "DAList.lookup (groups demo) ''g9'' = None"
    by (simp add: DAList.lookup.rep_eq demo_groups_impl) (simp add: demo_groups_def)
  then have "removeBreakpointFromGroup ''/a.js:10'' ''g9'' demo = demo"
    by (simp add: removeBreakpointFromGroup_def)
  then show ?thesis by simp
qed

section \<open>One group per breakpoint\<close>

lemma raw_disjoint_iff:
  "distinct (map fst xs) \<Longrightarrow>
   disjoint_lists (map (\<lambda>(k, g). f g) xs) \<longleftrightarrow>
     (\<forall>(k, g)\<in>set xs. \<forall>(k', g')\<in>set xs. k \<noteq> k' \<longrightarrow> set (f g) \<inter> set (f g') = {})"
proof (induction xs)
  case Nil
  then show ?case by simp
next
  case (Cons p xs)
  obtain k0 g0 where p: "p = (k0, g0)" by (cases p)
  from Cons.prems p have fresh: "k' \<noteq> k0" if "(k', g') \<in> set xs" for k' g'
    using that by (auto simp: image_iff)
  from Cons.prems have d: "distinct (map fst xs)" by simp
  let ?P = "\<lambda>ys. \<forall>(k, g)\<in>set ys. \<forall>(k', g')\<in>set ys. k \<noteq> k' \<longrightarrow> set (f g) \<inter> set (f g') = {}"
  let ?H = "\<forall>(k', g')\<in>set xs. set (f g0) \<inter> set (f g') = {}"
  have IH: "disjoint_lists (map (\<lambda>(k, g). f g) xs) \<longleftrightarrow> ?P xs"
    by (rule Cons.IH [OF d])
  have head: "(\<forall>m\<in>set (map (\<lambda>(k, g). f g) xs). set (f g0) \<inter> set m = {}) \<longleftrightarrow> ?H"
    by (simp add: case_prod_beta)
  have "?P ((k0, g0) # xs) \<longleftrightarrow> ?H \<and> ?P xs"
  proof
    assume all: "?P ((k0, g0) # xs)"
    have "?H"
    proof (clarify)
      fix k' g' assume in_xs: "(k', g') \<in> set xs"
      from fresh [OF in_xs] have "k0 \<noteq> k'" by simp
      moreover have "(k0, g0) \<in> set ((k0, g0) # xs)" "(k', g') \<in> set ((k0, g0) # xs)"
        using in_xs by simp_all
      ultimately show "set (f g0) \<inter> set (f g') = {}"
        using all by blast
    qed
    moreover have "?P xs"
    proof (clarify)
      fix k g k' g'
      assume "(k, g) \<in> set xs" "(k', g') \<in> set xs" "k \<noteq> k'"
      then have "(k, g) \<in> set ((k0, g0) # xs)" "(k', g') \<in> set ((k0, g0) # xs)" "k \<noteq> k'"
        by simp_all
      then show "set (f g) \<inter> set (f g') = {}"
        using all by blast
    qed
    ultimately show "?H \<and> ?P xs" ..
  next
    assume both: "?H \<and> ?P xs"
    show "?P ((k0, g0) # xs)"
    proof (clarify)
      fix k g k' g'
      assume a: "(k, g) \<in> set ((k0, g0) # xs)" and b: "(k', g') \<in> set ((k0, g0) # xs)"
        and ne: "k \<noteq> k'"
      consider "(k, g) = (k0, g0)" "(k', g') \<in> set xs"
        | "(k, g) \<in> set xs" "(k', g') = (k0, g0)"
        | "(k, g) \<in> set xs" "(k', g') \<in> set xs"
        using a b ne by auto
      then show "set (f g) \<inter> set (f g') = {}"
      proof cases
        case 1
        with both show ?thesis by blast
      next
        case 2
        with both have "set (f g0) \<inter> set (f g) = {}" by blast
        with 2 show ?thesis by (simp add: Int_commute)
      next
        case 3
        with both ne show ?thesis by blast
      qed
    qed
  qed
  then show ?case
    unfolding p by (simp only: list.map prod.case disjoint_lists.simps IH head)
qed

lemma singleMembership_iff:
  "singleMembership s \<longleftrightarrow>
     (\<forall>k k' G G'. DAList.lookup (groups s) k = Some G \<and> DAList.lookup (groups s) k' = Some G'
        \<and> k \<noteq> k' \<longrightarrow> set (g_breakpoints G) \<inter> set (g_breakpoints G') = {})"
proof -
  have "singleMembership s \<longleftrightarrow>
      (\<forall>(k, g)\<in>set (getGroups s). \<forall>(k', g')\<in>set (getGroups s).
          k \<noteq> k' \<longrightarrow> set (g_breakpoints g) \<inter> set (g_breakpoints g') = {})"
    unfolding singleMembership_def getGroups_def
    by (rule raw_disjoint_iff) simp
  also have "\<dots> \<longleftrightarrow>
     (\<forall>k k' G G'. (k, G) \<in> set (DAList.impl_of (groups s))
        \<and> (k', G') \<in> set (DAList.impl_of (groups s))
        \<and> k \<noteq> k' \<longrightarrow> set (g_breakpoints G) \<inter> set (g_breakpoints G') = {})"
    unfolding getGroups_def by fast
  also have "\<dots> \<longleftrightarrow>
     (\<forall>k k' G G'. DAList.lookup (groups s) k = Some G \<and> DAList.lookup (groups s) k' = Some G'
        \<and> k \<noteq> k' \<longrightarrow> set (g_breakpoints G) \<inter> set (g_breakpoints G') = {})"
    by (simp only: entry_iff_lookup)
  finally show ?thesis .
qed

lemma groups_removeBreakpointFromGroup:
  "DAList.lookup (groups (removeBreakpointFromGroup b g s)) k =
     (if k = g
      then map_option (\<lambda>G. G\<lparr>g_breakpoints := filter (\<lambda>i. i \<noteq> b) (g_breakpoints G)\<rparr>)
             (DAList.lookup (groups s) g)
      else DAList.lookup (groups s) k)"
  by (simp add: removeBreakpointFromGroup_def saveGroups_def fireGroupsChanged_def
      lookup_map_entry split: option.splits)

lemma groups_addBreakpointToGroup:
  "DAList.lookup (groups (addBreakpointToGroup b g s)) k =
     (if k = g \<and> DAList.lookup (breakpoints s) b \<noteq> None
      then map_option (\<lambda>G. if b \<in> set (g_breakpoints G) then G
                           else G\<lparr>g_breakpoints := g_breakpoints G @ [b]\<rparr>)
             (DAList.lookup (groups s) g)
      else DAList.lookup (groups s) k)"
  by (auto simp: addBreakpointToGroup_def saveGroups_def fireGroupsChanged_def
      lookup_map_entry split: option.splits)

lemma singleMembership_remove:
  assumes "singleMembership s"
  shows "singleMembership (removeBreakpointFromGroup b g s)"
proof -
  have sub: "\<exists>G0. DAList.lookup (groups s) k = Some G0 \<and> set (g_breakpoints G) \<subseteq> set (g_breakpoints G0)"
    if "DAList.lookup (groups (removeBreakpointFromGroup b g s)) k = Some G" for k G
    using that by (auto simp: groups_removeBreakpointFromGroup split: if_splits)
  show ?thesis
    unfolding singleMembership_iff
  proof (intro allI impI)
    fix k k' G G'
    assume a: "DAList.lookup (groups (removeBreakpointFromGroup b g s)) k = Some G \<and>
       DAList.lookup (groups (removeBreakpointFromGroup b g s)) k' = Some G' \<and> k \<noteq> k'"
    from a sub obtain G0 where G0: "DAList.lookup (groups s) k = Some G0"
      "set (g_breakpoints G) \<subseteq> set (g_breakpoints G0)" by blast
    from a sub obtain G0' where G0': "DAList.lookup (groups s) k' = Some G0'"
      "set (g_breakpoints G') \<subseteq> set (g_breakpoints G0')" by blast
    from assms G0(1) G0'(1) a have "set (g_breakpoints G0) \<inter> set (g_breakpoints G0') = {}"
      unfolding singleMembership_iff by blast
    with G0(2) G0'(2) show "set (g_breakpoints G) \<inter> set (g_breakpoints G') = {}"
      by blast
  qed
qed

lemma inNoOtherGroup_iff:
  "inNoOtherGroup b g s \<longleftrightarrow>
     (\<forall>k G. DAList.lookup (groups s) k = Some G \<and> b \<in> set (g_breakpoints G) \<longrightarrow> k = g)"
proof -
  have "inNoOtherGroup b g s \<longleftrightarrow>
     (\<forall>k G. (k, G) \<in> set (DAList.impl_of (groups s)) \<and> b \<in> set (g_breakpoints G) \<longrightarrow> k = g)"
    unfolding inNoOtherGroup_def getGroups_def by fast
  then show ?thesis by (simp only: entry_iff_lookup)
qed

lemma singleMembership_add:
  assumes inv: "singleMembership s" and other: "inNoOtherGroup b g s"
  shows "singleMembership (addBreakpointToGroup b g s)"
  unfolding singleMembership_iff
proof (intro allI impI)
  fix k k' G G'
  assume a: "DAList.lookup (groups (addBreakpointToGroup b g s)) k = Some G \<and>
       DAList.lookup (groups (addBreakpointToGroup b g s)) k' = Some G' \<and> k \<noteq> k'"
  have grow: "\<exists>G0. DAList.lookup (groups s) j = Some G0 \<and>
        set (g_breakpoints H) \<subseteq> set (g_breakpoints G0) \<union> (if j = g then {b} else {})"
    if "DAList.lookup (groups (addBreakpointToGroup b g s)) j = Some H" for j H
    using that by (auto simp: groups_addBreakpointToGroup split: if_splits)
  from a grow obtain G0 where G0: "DAList.lookup (groups s) k = Some G0"
    "set (g_breakpoints G) \<subseteq> set (g_breakpoints G0) \<union> (if k = g then {b} else {})" by blast
  from a grow obtain G0' where G0': "DAList.lookup (groups s) k' = Some G0'"
    "set (g_breakpoints G') \<subseteq> set (g_breakpoints G0') \<union> (if k' = g then {b} else {})" by blast
  from inv G0(1) G0'(1) a have dis: "set (g_breakpoints G0) \<inter> set (g_breakpoints G0') = {}"
    unfolding singleMembership_iff by blast
  have nb: "b \<notin> set (g_breakpoints G0')" if "k = g"
    using other G0'(1) a that unfolding inNoOtherGroup_iff by blast
  have nb': "b \<notin> set (g_breakpoints G0)" if "k' = g"
    using other G0(1) a that unfolding inNoOtherGroup_iff by blast
  show "set (g_breakpoints G) \<inter> set (g_breakpoints G') = {}"
  proof (cases "k = g")
    case True
    with a have "k' \<noteq> g" by blast
    with True G0(2) G0'(2) dis nb show ?thesis by auto
  next
    case False
    with G0(2) G0'(2) dis nb' show ?thesis by (auto split: if_splits)
  qed
qed

lemma getGroupForBreakpoint_None:
  "getGroupForBreakpoint b s = None \<longleftrightarrow>
     (\<forall>k G. DAList.lookup (groups s) k = Some G \<longrightarrow> b \<notin> set (g_breakpoints G))"
  unfolding getGroupForBreakpoint_def getGroups_def find_None_iff
  by (simp only: split_paired_Ex entry_iff_lookup prod.case) blast

lemma getGroupForBreakpoint_Some:
  "getGroupForBreakpoint b s = Some (k, G) \<Longrightarrow>
     DAList.lookup (groups s) k = Some G \<and> b \<in> set (g_breakpoints G)"
  unfolding getGroupForBreakpoint_def getGroups_def
  by (auto dest!: find_Some_member simp: entry_iff_lookup)

lemma moveBreakpointToGroup_manager:
  "breakpointManager (moveBreakpointToGroup element selectedGroup x) = breakpointManager x
   \<or> (\<exists>b dest D. element_breakpointId element = Some b \<and> selectedGroup = Some (dest, D)
        \<and> getGroups (breakpointManager x) \<noteq> []
        \<and> breakpointManager (moveBreakpointToGroup element selectedGroup x)
            = moved b dest (breakpointManager x))"
  by (auto simp: moveBreakpointToGroup_def moved_def showMessage_def Let_def
      split: option.splits)

lemma no_group_after_removal:
  assumes inv: "singleMembership s"
    and G: "DAList.lookup
              (groups (case getGroupForBreakpoint b s of
                         None \<Rightarrow> s
                       | Some (currentId, currentGroup) \<Rightarrow>
                           removeBreakpointFromGroup b currentId s)) k = Some G"
  shows "b \<notin> set (g_breakpoints G)"
proof (cases "getGroupForBreakpoint b s")
  case None
  then have "\<forall>k G. DAList.lookup (groups s) k = Some G \<longrightarrow> b \<notin> set (g_breakpoints G)"
    by (simp only: getGroupForBreakpoint_None)
  with G None show ?thesis by simp
next
  case (Some p)
  obtain cur Gc where p: "p = (cur, Gc)" by (cases p)
  from getGroupForBreakpoint_Some [of b s cur Gc] Some p
  have cur: "DAList.lookup (groups s) cur = Some Gc" "b \<in> set (g_breakpoints Gc)" by simp_all
  from G Some p have after: "DAList.lookup (groups (removeBreakpointFromGroup b cur s)) k = Some G"
    by simp
  show ?thesis
  proof (cases "k = cur")
    case True
    with after show ?thesis by (auto simp: groups_removeBreakpointFromGroup)
  next
    case False
    with after have "DAList.lookup (groups s) k = Some G"
      by (simp add: groups_removeBreakpointFromGroup)
    with inv cur(1) False have "set (g_breakpoints G) \<inter> set (g_breakpoints Gc) = {}"
      unfolding singleMembership_iff by blast
    with cur(2) show ?thesis by blast
  qed
qed

lemma ungrouped_after_removal:
  assumes inv: "singleMembership s"
  shows "inNoOtherGroup b dest
           (case getGroupForBreakpoint b s of
              None \<Rightarrow> s
            | Some (currentId, currentGroup) \<Rightarrow> removeBreakpointFromGroup b currentId s)"
  unfolding inNoOtherGroup_iff using no_group_after_removal [OF inv] by blast

lemma singleMembership_moved:
  assumes "singleMembership s"
  shows "singleMembership (moved b dest s)"
  unfolding moved_def
proof (rule singleMembership_add)
  show "singleMembership (case getGroupForBreakpoint b s of
          None \<Rightarrow> s
        | Some (currentId, currentGroup) \<Rightarrow> removeBreakpointFromGroup b currentId s)"
    using assms by (auto split: option.splits intro: singleMembership_remove)
  show "inNoOtherGroup b dest (case getGroupForBreakpoint b s of
          None \<Rightarrow> s
        | Some (currentId, currentGroup) \<Rightarrow> removeBreakpointFromGroup b currentId s)"
    by (rule ungrouped_after_removal [OF assms])
qed

lemma singleMembership_apply_op:
  assumes "singleMembership (breakpointManager x)"
    and "adds_to_ungrouped [op] x"
  shows "singleMembership (breakpointManager (apply_op op x))"
proof (cases op)
  case (AddMember b g)
  with assms show ?thesis by (simp add: singleMembership_add)
next
  case (Move element selectedGroup)
  from moveBreakpointToGroup_manager [of element selectedGroup x] assms(1) Move
  show ?thesis by (auto simp: singleMembership_moved)
qed

text \<open>
  C2, as the code has it. \<^verbatim>\<open>moveBreakpointToGroup\<close> keeps the member lists of the groups
  disjoint, and so does \<^verbatim>\<open>addBreakpointToGroup\<close> when it is called for a breakpoint that no
  other group lists: after any sequence of moves and of such additions, applied to a state
  in which no identity is in the member lists of two groups, no identity is in the member
  lists of two groups. \<^verbatim>\<open>addBreakpointToGroup\<close> itself looks at the member list of the
  destination group only.
\<close>

theorem add_and_move_keep_single_membership:
  "singleMembership (breakpointManager x) \<Longrightarrow> adds_to_ungrouped ops x \<Longrightarrow>
   singleMembership (breakpointManager (run_ops ops x))"
proof (induction ops arbitrary: x)
  case Nil
  then show ?case by simp
next
  case (Cons op ops)
  from Cons.prems have one: "adds_to_ungrouped [op] x" and rest: "adds_to_ungrouped ops (apply_op op x)"
    by (cases op; simp)+
  from singleMembership_apply_op [OF Cons.prems(1) one]
  have "singleMembership (breakpointManager (apply_op op x))" .
  from Cons.IH [OF this rest] show ?case by simp
qed

theorem add_and_move_keep_single_membership_witness:
  "singleMembership (breakpointManager demo_x)
   \<and> adds_to_ungrouped
        [Move (Some (BreakpointItem ''/a.js:10'' ''g1'')) (Some (demo_groups ! 1)),
         AddMember ''/c.js:7'' ''g1''] demo_x
   \<and> singleMembership (breakpointManager (run_ops
        [Move (Some (BreakpointItem ''/a.js:10'' ''g1'')) (Some (demo_groups ! 1)),
         AddMember ''/c.js:7'' ''g1''] demo_x))"
proof -
  have inv: "singleMembership (breakpointManager demo_x)"
    by code_simp
  have ok: "adds_to_ungrouped
        [Move (Some (BreakpointItem ''/a.js:10'' ''g1'')) (Some (demo_groups ! 1)),
         AddMember ''/c.js:7'' ''g1''] demo_x"
    by code_simp
  from add_and_move_keep_single_membership [OF inv ok] inv ok show ?thesis by simp
qed

text \<open>
  \<^verbatim>\<open>addBreakpointToGroup\<close> does put a breakpoint into a second group: in the example
  workspace \<^verbatim>\<open>/a.js:10\<close> is a member of \<^verbatim>\<open>g1\<close>, and adding it to \<^verbatim>\<open>g2\<close> leaves it in both.
\<close>

theorem addBreakpointToGroup_second_group_counterexample:
  "singleMembership demo
   \<and> map (\<lambda>(k, g). (k, g_breakpoints g)) (getGroups (addBreakpointToGroup ''/a.js:10'' ''g2'' demo))
       = [(''g1'', [''/a.js:10'', ''/gone.js:3'']), (''g2'', [''/b.js:2'', ''/a.js:10''])]
   \<and> \<not> singleMembership (addBreakpointToGroup ''/a.js:10'' ''g2'' demo)"
  by code_simp

section \<open>Moving a breakpoint that is gone from the mirror\<close>

lemma addBreakpointToGroup_orphan:
  "DAList.lookup (breakpoints s) b = None \<Longrightarrow> addBreakpointToGroup b g s = s"
  by (simp add: addBreakpointToGroup_def split: option.splits)

lemma breakpoints_removeBreakpointFromGroup:
  "breakpoints (removeBreakpointFromGroup b g s) = breakpoints s"
  by (simp add: removeBreakpointFromGroup_def saveGroups_def fireGroupsChanged_def
      split: option.splits)

text \<open>
  C10, as the code has it. When the breakpoint of a move is not in the mirror but is listed
  by a group, the move takes it out of the first group that lists it and changes no other
  group, so the chosen group does not receive it. It is in no group afterwards exactly when
  no other group listed it. The command still reports a move.
\<close>

theorem move_orphan_leaves_its_first_group:
  assumes orphan: "DAList.lookup (breakpoints (breakpointManager x)) b = None"
    and member: "getGroupForBreakpoint b (breakpointManager x) = Some (cur, Gc)"
    and el: "element_breakpointId element = Some b"
  shows "DAList.lookup (groups (breakpointManager
             (moveBreakpointToGroup element (Some (dest, D)) x))) cur
           = Some (Gc\<lparr>g_breakpoints := filter (\<lambda>i. i \<noteq> b) (g_breakpoints Gc)\<rparr>)
       \<and> (\<forall>k. k \<noteq> cur \<longrightarrow>
             DAList.lookup (groups (breakpointManager
               (moveBreakpointToGroup element (Some (dest, D)) x))) k
             = DAList.lookup (groups (breakpointManager x)) k)
       \<and> (\<not> isBreakpointGrouped b (breakpointManager
                  (moveBreakpointToGroup element (Some (dest, D)) x))
            \<longleftrightarrow> (\<forall>k G. k \<noteq> cur \<and> DAList.lookup (groups (breakpointManager x)) k = Some G
                     \<longrightarrow> b \<notin> set (g_breakpoints G)))
       \<and> shown (moveBreakpointToGroup element (Some (dest, D)) x)
           = Information (''Moved breakpoint to group: '' @ g_name D) # shown x"
proof -
  let ?m = "breakpointManager x"
  let ?x' = "moveBreakpointToGroup element (Some (dest, D)) x"
  from getGroupForBreakpoint_Some [OF member]
  have cur: "DAList.lookup (groups ?m) cur = Some Gc" "b \<in> set (g_breakpoints Gc)"
    by simp_all
  from member have ne: "getGroups ?m \<noteq> []"
    by (auto simp: getGroupForBreakpoint_def)
  have "DAList.lookup (breakpoints (removeBreakpointFromGroup b cur ?m)) b = None"
    using orphan by (simp add: breakpoints_removeBreakpointFromGroup)
  then have add: "addBreakpointToGroup b dest (removeBreakpointFromGroup b cur ?m)
      = removeBreakpointFromGroup b cur ?m"
    by (rule addBreakpointToGroup_orphan)
  have mgr: "breakpointManager ?x' = removeBreakpointFromGroup b cur ?m"
    using el ne member add by (simp add: moveBreakpointToGroup_def showMessage_def)
  have msg: "shown ?x' = Information (''Moved breakpoint to group: '' @ g_name D) # shown x"
    using el ne member by (simp add: moveBreakpointToGroup_def showMessage_def)
  have "\<not> isBreakpointGrouped b (breakpointManager ?x') \<longleftrightarrow>
      (\<forall>k G. DAList.lookup (groups (removeBreakpointFromGroup b cur ?m)) k = Some G
          \<longrightarrow> b \<notin> set (g_breakpoints G))"
    unfolding isBreakpointGrouped_def mgr by (simp add: getGroupForBreakpoint_None)
  also have "\<dots> \<longleftrightarrow> (\<forall>k G. k \<noteq> cur \<and> DAList.lookup (groups ?m) k = Some G
                     \<longrightarrow> b \<notin> set (g_breakpoints G))"
    using cur by (auto simp: groups_removeBreakpointFromGroup split: if_splits)
  finally have gone: "\<not> isBreakpointGrouped b (breakpointManager ?x') \<longleftrightarrow>
      (\<forall>k G. k \<noteq> cur \<and> DAList.lookup (groups ?m) k = Some G \<longrightarrow> b \<notin> set (g_breakpoints G))" .
  show ?thesis
    using cur gone msg by (simp add: mgr groups_removeBreakpointFromGroup)
qed

theorem move_orphan_leaves_its_first_group_witness:
  "DAList.lookup (breakpoints (breakpointManager demo_x)) ''/gone.js:3'' = None
   \<and> getGroupForBreakpoint ''/gone.js:3'' (breakpointManager demo_x) = Some (hd demo_groups)
   \<and> map (\<lambda>(k, g). (k, g_breakpoints g)) (getGroups (breakpointManager demo_x))
       = [(''g1'', [''/a.js:10'', ''/gone.js:3'']), (''g2'', [''/b.js:2''])]
   \<and> DAList.lookup (groups (breakpointManager
        (moveBreakpointToGroup (Some (BreakpointItem ''/gone.js:3'' ''g1''))
           (Some (demo_groups ! 1)) demo_x))) ''g1''
       = Some ((snd (hd demo_groups))\<lparr>g_breakpoints := [''/a.js:10'']\<rparr>)
   \<and> DAList.lookup (groups (breakpointManager
        (moveBreakpointToGroup (Some (BreakpointItem ''/gone.js:3'' ''g1''))
           (Some (demo_groups ! 1)) demo_x))) ''g2''
       = Some (snd (demo_groups ! 1))
   \<and> \<not> isBreakpointGrouped ''/gone.js:3'' (breakpointManager
        (moveBreakpointToGroup (Some (BreakpointItem ''/gone.js:3'' ''g1''))
           (Some (demo_groups ! 1)) demo_x))
   \<and> shown (moveBreakpointToGroup (Some (BreakpointItem ''/gone.js:3'' ''g1''))
           (Some (demo_groups ! 1)) demo_x)
       = [Information ''Moved breakpoint to group: UI'']"
proof -
  define G1 where "G1 = snd (hd demo_groups)"
  define D where "D = snd (demo_groups ! 1)"
  let ?x' = "moveBreakpointToGroup (Some (BreakpointItem ''/gone.js:3'' ''g1''))
           (Some (''g2'', D)) demo_x"
  have d: "demo_groups ! 1 = (''g2'', D)" "hd demo_groups = (''g1'', G1)"
    by (simp_all add: demo_groups_def D_def G1_def)
  have D: "g_name D = ''UI''"
    and G1: "filter (\<lambda>i. i \<noteq> ''/gone.js:3'') (g_breakpoints G1) = [''/a.js:10'']"
    and x: "shown demo_x = []"
    by (simp_all add: demo_groups_def D_def G1_def demo_x_def)
  have orphan: "DAList.lookup (breakpoints (breakpointManager demo_x)) ''/gone.js:3'' = None"
    by code_simp
  have "getGroupForBreakpoint ''/gone.js:3'' (breakpointManager demo_x) = Some (hd demo_groups)"
    by code_simp
  then have member: "getGroupForBreakpoint ''/gone.js:3'' (breakpointManager demo_x)
      = Some (''g1'', G1)"
    by (simp only: d)
  have el: "element_breakpointId (Some (BreakpointItem ''/gone.js:3'' ''g1'')) = Some ''/gone.js:3''"
    by simp
  have lists: "map (\<lambda>(k, g). (k, g_breakpoints g)) (getGroups (breakpointManager demo_x))
       = [(''g1'', [''/a.js:10'', ''/gone.js:3'']), (''g2'', [''/b.js:2''])]"
    by code_simp
  have "DAList.lookup (groups (breakpointManager demo_x)) ''g2'' = Some (snd (demo_groups ! 1))"
    by code_simp
  then have g2: "DAList.lookup (groups (breakpointManager demo_x)) ''g2'' = Some D"
    by (simp only: D_def)
  have others: "\<forall>k G. k \<noteq> ''g1'' \<and> DAList.lookup (groups (breakpointManager demo_x)) k = Some G
      \<longrightarrow> ''/gone.js:3'' \<notin> set (g_breakpoints G)"
  proof (intro allI impI)
    fix k G
    assume a: "k \<noteq> ''g1'' \<and> DAList.lookup (groups (breakpointManager demo_x)) k = Some G"
    then have "(k, G) \<in> set (DAList.impl_of (groups demo))"
      by (simp add: entry_iff_lookup demo_x_def)
    then have "(k, G) \<in> set demo_groups"
      by (simp only: demo_groups_impl)
    with a show "''/gone.js:3'' \<notin> set (g_breakpoints G)"
      by (auto simp: demo_groups_def)
  qed
  note step = move_orphan_leaves_its_first_group [OF orphan member el, of "''g2''" D]
  from step have a: "DAList.lookup (groups (breakpointManager ?x')) ''g1''
       = Some (G1\<lparr>g_breakpoints := [''/a.js:10'']\<rparr>)"
    by (simp add: G1)
  from step have "DAList.lookup (groups (breakpointManager ?x')) ''g2''
       = DAList.lookup (groups (breakpointManager demo_x)) ''g2''"
    by simp
  with g2 have b: "DAList.lookup (groups (breakpointManager ?x')) ''g2'' = Some D"
    by simp
  from step others have c: "\<not> isBreakpointGrouped ''/gone.js:3'' (breakpointManager ?x')"
    by blast
  from step have e: "shown ?x' = [Information ''Moved breakpoint to group: UI'']"
    by (simp add: D x)
  from orphan member lists a b c e show ?thesis
    unfolding d fst_conv snd_conv by (intro conjI)
qed

text \<open>
  A breakpoint that two groups list is not dropped from all groups: in \<open>twice_listed\<close>, moving
  \<^verbatim>\<open>/a.js:10\<close> to the third group empties the first group and leaves the breakpoint in the
  second.
\<close>

theorem move_orphan_listed_twice_counterexample:
  "DAList.lookup (breakpoints (breakpointManager twice_listed)) ''/a.js:10'' = None
   \<and> map (\<lambda>(k, g). (k, g_name g, g_breakpoints g)) (getGroups (breakpointManager twice_listed))
       = [(''g1'', ''DB'', [''/a.js:10'']), (''g2'', ''UI'', [''/a.js:10'']), (''g3'', ''API'', [])]
   \<and> map (\<lambda>(k, g). (k, g_breakpoints g)) (getGroups (breakpointManager
         (moveBreakpointToGroup (Some (BreakpointItem ''/a.js:10'' ''g1''))
            (Some (getGroups (breakpointManager twice_listed) ! 2)) twice_listed)))
       = [(''g1'', []), (''g2'', [''/a.js:10'']), (''g3'', [])]
   \<and> isBreakpointGrouped ''/a.js:10'' (breakpointManager
         (moveBreakpointToGroup (Some (BreakpointItem ''/a.js:10'' ''g1''))
            (Some (getGroups (breakpointManager twice_listed) ! 2)) twice_listed))
   \<and> shown (moveBreakpointToGroup (Some (BreakpointItem ''/a.js:10'' ''g1''))
            (Some (getGroups (breakpointManager twice_listed) ! 2)) twice_listed)
       = [Information ''Moved breakpoint to group: API'']"
  by code_simp

section \<open>Removing all groups\<close>

lemma removeAllGroups_keeps_every_group:
  "map fst (getGroups (breakpointManager (removeAllGroups confirm x)))
     = map fst (getGroups (breakpointManager x))"
  by (simp add: removeAllGroups_def showMessage_def getGroups_def saveGroups_def
      fireGroupsChanged_def Let_def map_values.rep_eq comp_def)

text \<open>
  C4. In the example workspace, the confirmed command tells the user
  \<^verbatim>\<open>Removed all 2 groups\<close> and leaves both groups in the store, each with an empty member
  list. The other half of the property does hold there: every mirrored breakpoint is
  ungrouped afterwards, and the mirror and the host are as before.
\<close>

theorem removeAllGroups_example:
  "map (\<lambda>(k, g). (k, g_name g, g_breakpoints g)) (getGroups (breakpointManager demo_x))
     = [(''g1'', ''DB'', [''/a.js:10'', ''/gone.js:3'']), (''g2'', ''UI'', [''/b.js:2''])]
   \<and> map (\<lambda>(k, g). (k, g_name g, g_breakpoints g))
         (getGroups (breakpointManager (removeAllGroups (Some ''Remove All Groups'') demo_x)))
     = [(''g1'', ''DB'', []), (''g2'', ''UI'', [])]
   \<and> shown (removeAllGroups (Some ''Remove All Groups'') demo_x)
     = [Information ''Removed all 2 groups. Breakpoints are now ungrouped.'']
   \<and> getUngroupedBreakpoints (breakpointManager (removeAllGroups (Some ''Remove All Groups'') demo_x))
     = getBreakpoints (breakpointManager demo_x)
   \<and> getBreakpoints (breakpointManager (removeAllGroups (Some ''Remove All Groups'') demo_x))
     = getBreakpoints (breakpointManager demo_x)
   \<and> host (breakpointManager (removeAllGroups (Some ''Remove All Groups'') demo_x))
     = host (breakpointManager demo_x)"
  by code_simp

section \<open>A batch of checkbox changes\<close>








section \<open>The host's list and the mirror\<close>

lemma live_enumerate:
  "List.map_filter (\<lambda>(i, ob). map_option (Pair i) ob) (enumerate n obs) = live n obs"
  by (induction n obs rule: live.induct) (simp_all add: map_filter_simps)

lemma debug_breakpoints_live: "debug_breakpoints s = live 0 (host s)"
  by (simp add: debug_breakpoints_def live_enumerate)

lemma live_append: "live n (xs @ ys) = live n xs @ live (n + length xs) ys"
  by (induction n xs rule: live.induct) simp_all

lemma live_mem:
  "(i, bp) \<in> set (live n obs) \<longleftrightarrow> n \<le> i \<and> i < n + length obs \<and> obs ! (i - n) = Some bp"
proof (induction n obs rule: live.induct)
  case (1 n)
  then show ?case by simp
next
  case (2 n obs)
  then show ?case by (auto simp: nth_Cons' Suc_diff_le)
next
  case (3 n bp' obs)
  then show ?case by (auto simp: nth_Cons' Suc_diff_le)
qed


lemma findSourceBreakpoint_Some:
  "findSourceBreakpoint k bs = Some (i, sb) \<Longrightarrow>
     (i, Source sb) \<in> set bs \<and> generateBreakpointId sb = k"
  by (induction k bs rule: findSourceBreakpoint.induct) (auto split: if_splits)

lemma findSourceBreakpoint_None:
  "findSourceBreakpoint k bs = None \<longleftrightarrow> sourcesWithId k bs = []"
  by (induction k bs rule: findSourceBreakpoint.induct) auto

lemma findSourceBreakpoint_host:
  assumes "findSourceBreakpoint b (debug_breakpoints s) = Some (i, sb)"
  shows "i < length (host s)" "host s ! i = Some (Source sb)" "generateBreakpointId sb = b"
  using findSourceBreakpoint_Some [OF assms] by (simp_all add: debug_breakpoints_live live_mem)


lemma set_sourcesWithId:
  "set (sourcesWithId k bs) = {sb. generateBreakpointId sb = k \<and> (\<exists>i. (i, Source sb) \<in> set bs)}"
  by (induction k bs rule: sourcesWithId.induct) auto

lemma sourcesWithId_append:
  "sourcesWithId k (xs @ ys) = sourcesWithId k xs @ sourcesWithId k ys"
  by (induction k xs rule: sourcesWithId.induct) simp_all

lemma sourcesWithId_live_removed:
  "i < length obs \<Longrightarrow> obs ! i = Some (Source sb) \<Longrightarrow> generateBreakpointId sb \<noteq> k \<Longrightarrow>
   sourcesWithId k (live n (obs[i := None])) = sourcesWithId k (live n obs)"
proof (induction n obs arbitrary: i rule: live.induct)
  case (1 n)
  then show ?case by simp
next
  case (2 n obs)
  then show ?case by (cases i) simp_all
next
  case (3 n bp obs)
  then show ?case by (cases i; cases bp) simp_all
qed

lemma lookup_mirror_fold:
  "DAList.lookup
     (foldl (\<lambda>m (i, bp). case bp of
                Source sb \<Rightarrow> DAList.update (generateBreakpointId sb) (toInfo sb) m
              | OtherBreakpoint e \<Rightarrow> m) acc bs) k =
   (if sourcesWithId k bs = [] then DAList.lookup acc k
    else Some (toInfo (last (sourcesWithId k bs))))"
proof (induction k bs arbitrary: acc rule: sourcesWithId.induct)
  case (1 k)
  then show ?case by simp
next
  case (2 k i sb rest)
  then show ?case by (simp add: DAList.lookup_update)
next
  case (3 k i e rest)
  then show ?case by simp
qed

lemma lookup_mirrorOf:
  "DAList.lookup (mirrorOf bs) k =
     (if sourcesWithId k bs = [] then None else Some (toInfo (last (sourcesWithId k bs))))"
  by (simp add: mirrorOf_def lookup_mirror_fold)

lemma only_source_with_id:
  assumes i: "i < length obs" and at: "obs ! i = Some (Source sb)"
    and others: "\<forall>j sb'. j < length obs \<and> j \<noteq> i \<and> obs ! j = Some (Source sb')
                   \<longrightarrow> generateBreakpointId sb' \<noteq> generateBreakpointId sb"
  shows "DAList.lookup (mirrorOf (live 0 obs)) (generateBreakpointId sb) = Some (toInfo sb)"
proof -
  let ?l = "sourcesWithId (generateBreakpointId sb) (live 0 obs)"
  from i at have "(i, Source sb) \<in> set (live 0 obs)"
    by (simp add: live_mem)
  then have "\<exists>j. (j, Source sb) \<in> set (live 0 obs)" ..
  then have mem: "sb \<in> set ?l"
    unfolding set_sourcesWithId by simp
  have one: "sb' = sb" if "sb' \<in> set ?l" for sb'
  proof -
    from that have id: "generateBreakpointId sb' = generateBreakpointId sb"
      and ex: "\<exists>j. (j, Source sb') \<in> set (live 0 obs)"
      unfolding set_sourcesWithId by simp_all
    from ex obtain j where "(j, Source sb') \<in> set (live 0 obs)" ..
    then have j: "j < length obs" "obs ! j = Some (Source sb')"
      by (simp_all add: live_mem)
    show ?thesis
    proof (cases "j = i")
      case True
      with j at show ?thesis by simp
    next
      case False
      with others j id show ?thesis by blast
    qed
  qed
  from mem have ne: "?l \<noteq> []" by auto
  then have "last ?l \<in> set ?l" by (rule last_in_set)
  then have "last ?l = sb" by (rule one)
  with ne show ?thesis by (simp add: lookup_mirrorOf)
qed

lemma newBreakpoint_replaced:
  "\<lparr>sb_location = sb_location sb, sb_enabled = en, sb_condition = sb_condition sb,
    sb_hitCondition = sb_hitCondition sb, sb_logMessage = sb_logMessage sb\<rparr> = replaced sb en"
  by (simp add: replaced_def)

lemma replaced_id [simp]: "generateBreakpointId (replaced sb en) = generateBreakpointId sb"
  by (simp add: replaced_def generateBreakpointId_def)

lemma toInfo_replaced: "toInfo (replaced sb en) = (toInfo sb)\<lparr>bi_enabled := en\<rparr>"
  by (simp add: replaced_def toInfo_def)

lemma swapped_fields:
  "host (swapped i sb en s) = (host s)[i := None] @ [Some (Source (replaced sb en))]"
  "breakpoints (swapped i sb en s) = mirrorOf (live 0 (host (swapped i sb en s)))"
  "groups (swapped i sb en s) = groups s"
  "persisted (swapped i sb en s) = persisted s"
  "fired s < fired (swapped i sb en s)"
proof -
  have h: "host (removeBreakpoints (i, Source sb) s) = (host s)[i := None]"
  proof (cases "i < length (host s) \<and> host s ! i \<noteq> None")
    case True
    then show ?thesis
      by (simp add: removeBreakpoints_def onDidChangeBreakpoints_def syncBreakpoints_def
          fireGroupsChanged_def)
  next
    case False
    then have "(host s)[i := None] = host s"
      by (cases "i < length (host s)") (simp_all add: list_update_same_conv list_update_beyond)
    moreover from False have "removeBreakpoints (i, Source sb) s = s"
      by (auto simp: removeBreakpoints_def)
    ultimately show ?thesis by simp
  qed
  have g: "groups (removeBreakpoints (i, Source sb) s) = groups s"
    "persisted (removeBreakpoints (i, Source sb) s) = persisted s"
    "fired s \<le> fired (removeBreakpoints (i, Source sb) s)"
    by (simp_all add: removeBreakpoints_def onDidChangeBreakpoints_def syncBreakpoints_def
          fireGroupsChanged_def)
  show "host (swapped i sb en s) = (host s)[i := None] @ [Some (Source (replaced sb en))]"
    using h by (simp add: swapped_def addBreakpoints_def onDidChangeBreakpoints_def
        syncBreakpoints_def fireGroupsChanged_def)
  show "breakpoints (swapped i sb en s) = mirrorOf (live 0 (host (swapped i sb en s)))"
    by (simp add: swapped_def addBreakpoints_def onDidChangeBreakpoints_def
        syncBreakpoints_def fireGroupsChanged_def debug_breakpoints_live)
  show "groups (swapped i sb en s) = groups s"
    using g by (simp add: swapped_def addBreakpoints_def onDidChangeBreakpoints_def
        syncBreakpoints_def fireGroupsChanged_def)
  show "persisted (swapped i sb en s) = persisted s"
    using g by (simp add: swapped_def addBreakpoints_def onDidChangeBreakpoints_def
        syncBreakpoints_def fireGroupsChanged_def)
  show "fired s < fired (swapped i sb en s)"
    using g(3) by (simp add: swapped_def addBreakpoints_def onDidChangeBreakpoints_def
        syncBreakpoints_def fireGroupsChanged_def)
qed

lemma lookup_mirror_after_swap:
  assumes i: "i < length obs" and at: "obs ! i = Some (Source sb)"
  shows "DAList.lookup (mirrorOf (live 0 (obs[i := None] @ [Some (Source (replaced sb en))]))) k =
     (if k = generateBreakpointId sb then Some (toInfo (replaced sb en))
      else DAList.lookup (mirrorOf (live 0 obs)) k)"
proof (cases "k = generateBreakpointId sb")
  case True
  then show ?thesis
    by (simp add: lookup_mirrorOf live_append sourcesWithId_append)
next
  case False
  with i at have "sourcesWithId k (live 0 (obs[i := None])) = sourcesWithId k (live 0 obs)"
    by (intro sourcesWithId_live_removed) auto
  with False show ?thesis
    by (simp add: lookup_mirrorOf live_append sourcesWithId_append)
qed

section \<open>Enabling and disabling one breakpoint\<close>

lemma toggleBreakpoint_found:
  "findSourceBreakpoint b (debug_breakpoints s) = Some (i, sb) \<Longrightarrow>
   toggleBreakpoint b en s =
     (swapped i sb en s)\<lparr>breakpoints :=
        DAList.map_entry b (\<lambda>info. info\<lparr>bi_enabled := en\<rparr>) (breakpoints (swapped i sb en s))\<rparr>"
  by (simp add: toggleBreakpoint_def swapped_def newBreakpoint_replaced Let_def)

text \<open>
  C8, as the code has it. \<^verbatim>\<open>toggleBreakpoint\<close> looks for the first source breakpoint of the host
  whose identity is the given one. When there is none, the call changes nothing at all. When
  there is one, the host loses that object and gains, at the end of its list, a new one with
  the same location, condition, hit condition and log message and the new flag. The state
  after the call is the state after these two host calls: the listener has rebuilt the mirror
  from the host's new list by then, and the closing write of the flag finds it already
  there. In that mirror the record of the identity is the mirror image of the replaced
  breakpoint with the new flag, and every other identity has the record that a rebuild from
  the host's list before the call gives. Compared with the mirror before the call, only the
  flag of that one record differs, provided that the mirror was the image of the host's list
  and that no other source breakpoint of the host had the identity. The groups and what is
  stored are untouched.
\<close>

theorem toggleBreakpoint_replaces_and_mirror_is_rebuilt:
  "(findSourceBreakpoint b (debug_breakpoints s) = None \<longrightarrow> toggleBreakpoint b en s = s)
   \<and> (\<forall>i sb newBreakpoint.
        findSourceBreakpoint b (debug_breakpoints s) = Some (i, sb)
        \<and> newBreakpoint = \<lparr>sb_location = sb_location sb, sb_enabled = en,
             sb_condition = sb_condition sb, sb_hitCondition = sb_hitCondition sb,
             sb_logMessage = sb_logMessage sb\<rparr> \<longrightarrow>
          i < length (host s) \<and> host s ! i = Some (Source sb) \<and> generateBreakpointId sb = b
        \<and> host (toggleBreakpoint b en s) = (host s)[i := None] @ [Some (Source newBreakpoint)]
        \<and> toggleBreakpoint b en s
            = addBreakpoints (Source newBreakpoint) (removeBreakpoints (i, Source sb) s)
        \<and> breakpoints (toggleBreakpoint b en s)
            = mirrorOf (debug_breakpoints (toggleBreakpoint b en s))
        \<and> DAList.lookup (breakpoints (toggleBreakpoint b en s)) b
            = Some ((toInfo sb)\<lparr>bi_enabled := en\<rparr>)
        \<and> (\<forall>k. k \<noteq> b \<longrightarrow> DAList.lookup (breakpoints (toggleBreakpoint b en s)) k
                              = DAList.lookup (mirrorOf (debug_breakpoints s)) k)
        \<and> (breakpoints s = mirrorOf (debug_breakpoints s)
            \<and> (\<forall>j sb'. j < length (host s) \<and> j \<noteq> i \<and> host s ! j = Some (Source sb')
                   \<longrightarrow> generateBreakpointId sb' \<noteq> b) \<longrightarrow>
              (\<forall>k. DAList.lookup (breakpoints (toggleBreakpoint b en s)) k =
                 (if k = b
                  then map_option (\<lambda>info. info\<lparr>bi_enabled := en\<rparr>)
                         (DAList.lookup (breakpoints s) b)
                  else DAList.lookup (breakpoints s) k)))
        \<and> groups (toggleBreakpoint b en s) = groups s
        \<and> persisted (toggleBreakpoint b en s) = persisted s)"
proof (intro conjI allI impI)
  assume "findSourceBreakpoint b (debug_breakpoints s) = None"
  then show "toggleBreakpoint b en s = s"
    by (simp add: toggleBreakpoint_def)
next
  fix i sb newBreakpoint
  assume a: "findSourceBreakpoint b (debug_breakpoints s) = Some (i, sb)
        \<and> newBreakpoint = \<lparr>sb_location = sb_location sb, sb_enabled = en,
             sb_condition = sb_condition sb, sb_hitCondition = sb_hitCondition sb,
             sb_logMessage = sb_logMessage sb\<rparr>"
  then have found: "findSourceBreakpoint b (debug_breakpoints s) = Some (i, sb)"
    and new: "newBreakpoint = replaced sb en"
    by (simp_all add: newBreakpoint_replaced)
  note at = findSourceBreakpoint_host [OF found]
  note tg = toggleBreakpoint_found [OF found, of en]
  have mirror: "DAList.lookup (breakpoints (swapped i sb en s)) k =
      (if k = b then Some (toInfo (replaced sb en))
       else DAList.lookup (mirrorOf (debug_breakpoints s)) k)" for k
    using lookup_mirror_after_swap [OF at(1) at(2), of en k] at(3)
    by (simp add: swapped_fields debug_breakpoints_live)
  have "DAList.map_entry b (\<lambda>info. info\<lparr>bi_enabled := en\<rparr>) (breakpoints (swapped i sb en s))
      = breakpoints (swapped i sb en s)"
    by (rule map_entry_fixed [where v = "toInfo (replaced sb en)"])
       (simp_all add: mirror toInfo_replaced)
  with tg have same: "toggleBreakpoint b en s = swapped i sb en s" by simp
  show "i < length (host s)" "host s ! i = Some (Source sb)" "generateBreakpointId sb = b"
    by (rule at)+
  show "host (toggleBreakpoint b en s) = (host s)[i := None] @ [Some (Source newBreakpoint)]"
    by (simp add: same swapped_fields new)
  show "toggleBreakpoint b en s
            = addBreakpoints (Source newBreakpoint) (removeBreakpoints (i, Source sb) s)"
    by (simp add: same new swapped_def)
  show "breakpoints (toggleBreakpoint b en s)
            = mirrorOf (debug_breakpoints (toggleBreakpoint b en s))"
    unfolding same debug_breakpoints_live by (rule swapped_fields)
  show "groups (toggleBreakpoint b en s) = groups s"
    by (simp add: same swapped_fields)
  show "persisted (toggleBreakpoint b en s) = persisted s"
    by (simp add: same swapped_fields)
  show rec: "DAList.lookup (breakpoints (toggleBreakpoint b en s)) b
            = Some ((toInfo sb)\<lparr>bi_enabled := en\<rparr>)"
    by (simp add: same mirror toInfo_replaced)
  {
    fix k
    assume "k \<noteq> b"
    then show "DAList.lookup (breakpoints (toggleBreakpoint b en s)) k
                              = DAList.lookup (mirrorOf (debug_breakpoints s)) k"
      by (simp add: same mirror)
  }
  {
    fix k
    assume c: "breakpoints s = mirrorOf (debug_breakpoints s)
            \<and> (\<forall>j sb'. j < length (host s) \<and> j \<noteq> i \<and> host s ! j = Some (Source sb')
                   \<longrightarrow> generateBreakpointId sb' \<noteq> b)"
    then have fresh: "breakpoints s = mirrorOf (live 0 (host s))"
      and alone: "\<forall>j sb'. j < length (host s) \<and> j \<noteq> i \<and> host s ! j = Some (Source sb')
                   \<longrightarrow> generateBreakpointId sb' \<noteq> generateBreakpointId sb"
      unfolding at(3) debug_breakpoints_live by simp_all
    from at(1) at(2) alone
    have "DAList.lookup (mirrorOf (live 0 (host s))) (generateBreakpointId sb) = Some (toInfo sb)"
      by (rule only_source_with_id)
    with fresh at(3) have "DAList.lookup (breakpoints s) b = Some (toInfo sb)"
      by simp
    with c show "DAList.lookup (breakpoints (toggleBreakpoint b en s)) k =
                 (if k = b
                  then map_option (\<lambda>info. info\<lparr>bi_enabled := en\<rparr>)
                         (DAList.lookup (breakpoints s) b)
                  else DAList.lookup (breakpoints s) k)"
      by (simp add: same mirror toInfo_replaced)
  }
qed

theorem toggleBreakpoint_replaces_and_mirror_is_rebuilt_witness:
  "findSourceBreakpoint ''/b.js:2'' (debug_breakpoints demo) = Some (2, hostB)
   \<and> breakpoints demo = mirrorOf (debug_breakpoints demo)
   \<and> map (\<lambda>bp. case bp of Source sb' \<Rightarrow> generateBreakpointId sb' | _ \<Rightarrow> [])
         (map snd (debug_breakpoints demo))
       = [''/a.js:10'', [], ''/b.js:2'', ''/c.js:7'']
   \<and> host (toggleBreakpoint ''/b.js:2'' True demo)
       = [Some (Source hostA), Some (OtherBreakpoint True), None, Some (Source hostC),
          Some (Source (hostB\<lparr>sb_enabled := True\<rparr>))]
   \<and> DAList.lookup (breakpoints (toggleBreakpoint ''/b.js:2'' True demo)) ''/b.js:2''
       = Some ((toInfo hostB)\<lparr>bi_enabled := True\<rparr>)
   \<and> DAList.lookup (breakpoints (toggleBreakpoint ''/b.js:2'' True demo)) ''/c.js:7''
       = DAList.lookup (breakpoints demo) ''/c.js:7''
   \<and> findSourceBreakpoint ''/gone.js:3'' (debug_breakpoints demo) = None
   \<and> toggleBreakpoint ''/gone.js:3'' False demo = demo"
proof -
  have found: "findSourceBreakpoint ''/b.js:2'' (debug_breakpoints demo) = Some (2, hostB)"
    by code_simp
  have none: "findSourceBreakpoint ''/gone.js:3'' (debug_breakpoints demo) = None"
    by code_simp
  have h: "host demo = [Some (Source hostA), Some (OtherBreakpoint True), Some (Source hostB),
      Some (Source hostC)]"
    by code_simp
  have fresh: "breakpoints demo = mirrorOf (debug_breakpoints demo)"
    by code_simp
  have ids: "map (\<lambda>bp. case bp of Source sb' \<Rightarrow> generateBreakpointId sb' | _ \<Rightarrow> [])
         (map snd (debug_breakpoints demo))
       = [''/a.js:10'', [], ''/b.js:2'', ''/c.js:7'']"
    by code_simp
  have alone: "\<forall>j sb'. j < length (host demo) \<and> j \<noteq> 2 \<and> host demo ! j = Some (Source sb')
                   \<longrightarrow> generateBreakpointId sb' \<noteq> ''/b.js:2''"
  proof (intro allI impI)
    fix j sb'
    assume a: "j < length (host demo) \<and> j \<noteq> 2 \<and> host demo ! j = Some (Source sb')"
    then have "j < 4" "j \<noteq> 2" unfolding h by simp_all
    then have "j = 0 \<or> j = 1 \<or> j = 3" by arith
    then show "generateBreakpointId sb' \<noteq> ''/b.js:2''"
    proof (elim disjE)
      assume "j = 0"
      with a have "sb' = hostA" unfolding h by simp
      then show ?thesis by (simp add: demo_ids)
    next
      assume "j = 1"
      with a show ?thesis unfolding h by simp
    next
      assume "j = 3"
      with a have "sb' = hostC" unfolding h by simp
      then show ?thesis by (simp add: demo_ids)
    qed
  qed
  have r: "\<lparr>sb_location = sb_location hostB, sb_enabled = True,
             sb_condition = sb_condition hostB, sb_hitCondition = sb_hitCondition hostB,
             sb_logMessage = sb_logMessage hostB\<rparr> = hostB\<lparr>sb_enabled := True\<rparr>"
    by simp
  from toggleBreakpoint_replaces_and_mirror_is_rebuilt [of "''/b.js:2''" demo True] found
  have all: "host (toggleBreakpoint ''/b.js:2'' True demo)
       = (host demo)[2 := None] @ [Some (Source (hostB\<lparr>sb_enabled := True\<rparr>))]
     \<and> DAList.lookup (breakpoints (toggleBreakpoint ''/b.js:2'' True demo)) ''/b.js:2''
       = Some ((toInfo hostB)\<lparr>bi_enabled := True\<rparr>)
     \<and> (breakpoints demo = mirrorOf (debug_breakpoints demo)
            \<and> (\<forall>j sb'. j < length (host demo) \<and> j \<noteq> 2 \<and> host demo ! j = Some (Source sb')
                   \<longrightarrow> generateBreakpointId sb' \<noteq> ''/b.js:2'') \<longrightarrow>
              (\<forall>k. DAList.lookup (breakpoints (toggleBreakpoint ''/b.js:2'' True demo)) k =
                 (if k = ''/b.js:2''
                  then map_option (\<lambda>info. info\<lparr>bi_enabled := True\<rparr>)
                         (DAList.lookup (breakpoints demo) ''/b.js:2'')
                  else DAList.lookup (breakpoints demo) k)))"
    unfolding r [symmetric] by blast
  then have "\<forall>k. DAList.lookup (breakpoints (toggleBreakpoint ''/b.js:2'' True demo)) k =
                 (if k = ''/b.js:2''
                  then map_option (\<lambda>info. info\<lparr>bi_enabled := True\<rparr>)
                         (DAList.lookup (breakpoints demo) ''/b.js:2'')
                  else DAList.lookup (breakpoints demo) k)"
    using fresh alone by blast
  then have c: "DAList.lookup (breakpoints (toggleBreakpoint ''/b.js:2'' True demo)) ''/c.js:7''
       = DAList.lookup (breakpoints demo) ''/c.js:7''"
    by simp
  from toggleBreakpoint_replaces_and_mirror_is_rebuilt [of "''/gone.js:3''" demo False] none
  have n: "toggleBreakpoint ''/gone.js:3'' False demo = demo"
    by blast
  from all have h': "host (toggleBreakpoint ''/b.js:2'' True demo)
       = [Some (Source hostA), Some (OtherBreakpoint True), None, Some (Source hostC),
          Some (Source (hostB\<lparr>sb_enabled := True\<rparr>))]"
    by (simp add: h)
  from all have b: "DAList.lookup (breakpoints (toggleBreakpoint ''/b.js:2'' True demo)) ''/b.js:2''
       = Some ((toInfo hostB)\<lparr>bi_enabled := True\<rparr>)"
    by (rule conjunct1 [OF conjunct2])
  from found fresh ids h' b c none n show ?thesis
    by (intro conjI)
qed

text \<open>
  More than the flag of one record can change. In the example workspace, enabling \<^verbatim>\<open>/b.js:2\<close>
  moves its record from the second place of the mirror to the last. In \<open>twins\<close> the mirrored
  record of \<^verbatim>\<open>/a.js:10\<close> is that of the breakpoint at column 5; disabling \<^verbatim>\<open>/a.js:10\<close>
  replaces the breakpoint at column 0, and the record ends with column 0.
\<close>

theorem toggleBreakpoint_more_than_enabled_counterexample:
  "map fst (getBreakpoints demo) = [''/a.js:10'', ''/b.js:2'', ''/c.js:7'']
   \<and> map fst (getBreakpoints (toggleBreakpoint ''/b.js:2'' True demo))
       = [''/a.js:10'', ''/c.js:7'', ''/b.js:2'']
   \<and> findSourceBreakpoint ''/a.js:10'' (debug_breakpoints twins) = Some (0, hostA)
   \<and> map (\<lambda>(k, info). (k, bi_column info, bi_enabled info)) (getBreakpoints twins)
       = [(''/a.js:10'', 5, True)]
   \<and> map (\<lambda>(k, info). (k, bi_column info, bi_enabled info))
         (getBreakpoints (toggleBreakpoint ''/a.js:10'' False twins))
       = [(''/a.js:10'', 0, False)]"
  by code_simp

section \<open>Enabling and disabling a group\<close>

















end
